theory Spec2Isabelle
  imports Main
begin

section \<open>The payroll report view (src/components/ReportManager.tsx)\<close>

text \<open>
  The component reads four collections (employees, attendance, advances, salary payments)
  and derives, for one employee and one month, a report value, a balance string, a
  filtered employee list and a plain-text payslip. Monetary amounts are JavaScript
  numbers in the source, that is binary64; in the report they are modelled as exact
  integers (\<open>int\<close>), which is what the code computes for whole-number amounts whose sums
  stay below \<open>2 ^ 53\<close>. Where a claim compares sums that the code adds up in different
  groupings, the sums are modelled a second time over binary64 numbers with their rounding.
  Strings are lists of bytes: a JavaScript string is kept as its UTF-8 encoding, which for
  ASCII text is one byte per character. Joining strings, comparing them and looking for
  a substring give the same answers on the encodings as on the strings themselves, for
  strings without unpaired surrogates.
\<close>

subsection \<open>Data model\<close>

text \<open>
  Modelled from the spec: the declarations of \<open>Employee\<close>, \<open>AttendanceRecord\<close>,
  \<open>Advance\<close>, \<open>SalaryPayment\<close> and \<open>MonthlyReport\<close> live in \<open>../types\<close>, which is not
  part of the sources at hand. The fields are the ones the component reads. A record's
  date is one calendar date, the string \<open>YYYY-MM-DD\<close>, kept here as its three numbers;
  the month token of the month picker, \<open>YYYY-MM\<close>, is kept as its two numbers.
  The optional fields \<open>customType\<close> and \<open>customAmount\<close> are options.
\<close>

type_synonym date_string = "int \<times> int \<times> int"
type_synonym month_token = "int \<times> int"

record Employee =
  id_emp :: string
  name :: string
  designation :: string
  contactNumber :: string
  dailyWage :: int

record AttendanceRecord =
  employeeId :: string
  date :: date_string
  present :: bool
  customType :: "string option"
  customAmount :: "int option"

record Advance =
  employeeId :: string
  date :: date_string
  amount :: int
  description :: string

record SalaryPayment =
  employeeId :: string
  paymentDate :: date_string
  amount :: int
  description :: string

text \<open>
  The six lists of a report are type parameters, so that one record serves for the report
  as a value (\<open>MonthlyReport\<close>, the lists themselves) and for the report object on the
  store (\<open>MonthlyReportObj\<close>, references to arrays).
\<close>

record ('att, 'adv, 'pay) MonthlyReportOf =
  employeeId :: string
  month :: month_token
  totalDaysWorked :: nat
  baseWages :: int
  additionalEarnings :: int
  totalWagesEarned :: int
  totalAdvancesTaken :: int
  totalSalaryPaid :: int
  finalAmount :: int
  attendanceDetails :: 'att
  advanceDetails :: 'adv
  salaryPaymentDetails :: 'pay
  otRecords :: 'att
  halfDayRecords :: 'att
  customPaymentRecords :: 'att

type_synonym MonthlyReport =
  "(AttendanceRecord list, Advance list, SalaryPayment list) MonthlyReportOf"

type_synonym MonthlyReportObj = "(nat, nat, nat) MonthlyReportOf"

text \<open>
  The props of the component, the salary payments delivered by the \<open>useFirestore\<close> hook
  and the three pieces of component state.
\<close>

record ReportManager =
  employees :: "Employee list"
  attendance :: "AttendanceRecord list"
  advances :: "Advance list"
  salaryPayments :: "SalaryPayment list"
  selectedEmployee :: string
  selectedMonth :: month_token
  searchTerm :: string

subsection \<open>The JavaScript \<open>Date\<close> operations the component calls\<close>

text \<open>
  A \<open>Date\<close> is its time value, the milliseconds since 1970-01-01T00:00:00Z. The host's
  time zone is a fixed offset \<open>tz\<close> in minutes east of UTC (330 for India, 0 for UTC);
  daylight-saving changes are not modelled. The day number of a calendar date and its
  inverse are computed in the proleptic Gregorian calendar, as ECMAScript prescribes.
\<close>

definition msPerDay :: int where
  "msPerDay = 86400000"

definition msPerMinute :: int where
  "msPerMinute = 60000"

definition days_from_civil :: "int \<Rightarrow> int \<Rightarrow> int \<Rightarrow> int" where
  "days_from_civil y m d =
     (let y' = (if m \<le> 2 then y - 1 else y);
          era = y' div 400;
          yoe = y' - era * 400;
          doy = (153 * (if m > 2 then m - 3 else m + 9) + 2) div 5 + d - 1;
          doe = yoe * 365 + yoe div 4 - yoe div 100 + doy
      in era * 146097 + doe - 719468)"

definition civil_from_days :: "int \<Rightarrow> int \<times> int \<times> int" where
  "civil_from_days z =
     (let z' = z + 719468;
          era = z' div 146097;
          doe = z' - era * 146097;
          yoe = (doe - doe div 1460 + doe div 36524 - doe div 146096) div 365;
          y = yoe + era * 400;
          doy = doe - (365 * yoe + yoe div 4 - yoe div 100);
          mp = (5 * doy + 2) div 153;
          d = doy - (153 * mp + 2) div 5 + 1;
          m = (if mp < 10 then mp + 3 else mp - 9)
      in ((if m \<le> 2 then y + 1 else y), m, d))"

text \<open>\<open>new Date('YYYY-MM-DD')\<close>: a date-only ISO string is read as midnight UTC.\<close>

definition parseDate :: "date_string \<Rightarrow> int" where
  "parseDate s = (case s of (y, m, d) \<Rightarrow> days_from_civil y m d * msPerDay)"

text \<open>\<open>getFullYear\<close> and \<open>getMonth\<close> read the time value in local time; months count from 0.\<close>

definition getFullYear :: "int \<Rightarrow> int \<Rightarrow> int" where
  "getFullYear tz t = fst (civil_from_days ((t + tz * msPerMinute) div msPerDay))"

definition getMonth :: "int \<Rightarrow> int \<Rightarrow> int" where
  "getMonth tz t = fst (snd (civil_from_days ((t + tz * msPerMinute) div msPerDay))) - 1"

text \<open>
  \<open>new Date(year, monthIndex, day)\<close>: local midnight of that day. A month index of 12
  carries into the next year, day 0 is the day before the first of the month, and a
  year from 0 to 99 means 1900 + year.
\<close>

definition newDate :: "int \<Rightarrow> int \<Rightarrow> int \<Rightarrow> int \<Rightarrow> int" where
  "newDate tz year monthIndex day =
     (let yr = (if 0 \<le> year \<and> year \<le> 99 then 1900 + year else year);
          ym = yr + monthIndex div 12;
          mn = monthIndex mod 12
      in (days_from_civil ym (mn + 1) 1 + day - 1) * msPerDay - tz * msPerMinute)"

subsection \<open>\<open>generateMonthlyReport\<close>\<close>

text \<open>\<open>const monthStart = new Date(month + '-01')\<close>\<close>

definition monthStart :: "month_token \<Rightarrow> int" where
  "monthStart mth = (case mth of (y, m) \<Rightarrow> parseDate (y, m, 1))"

text \<open>\<open>const monthEnd = new Date(monthStart.getFullYear(), monthStart.getMonth() + 1, 0)\<close>\<close>

definition monthEnd :: "int \<Rightarrow> month_token \<Rightarrow> int" where
  "monthEnd tz mth =
     newDate tz (getFullYear tz (monthStart mth)) (getMonth tz (monthStart mth) + 1) 0"

text \<open>
  The \<open>forEach\<close> over the month's attendance, with its two accumulators
  \<open>baseWages\<close> and \<open>additionalEarnings\<close>. \<open>if (record.customAmount)\<close> is false for a
  missing amount and for the amount 0.
\<close>

fun accumulate :: "int \<Rightarrow> AttendanceRecord list \<Rightarrow> int \<times> int \<Rightarrow> int \<times> int" where
  "accumulate wage [] acc = acc"
| "accumulate wage (record # rest) (bw, ae) =
     (let bw' = (if present record then bw + wage else bw);
          ae' = (case customAmount record of
                   None \<Rightarrow> ae
                 | Some v \<Rightarrow> if v \<noteq> 0 then ae + v else ae)
      in accumulate wage rest (bw', ae'))"

definition generateMonthlyReport ::
  "int \<Rightarrow> ReportManager \<Rightarrow> string \<Rightarrow> month_token \<Rightarrow> MonthlyReport option" where
  "generateMonthlyReport tz c empId mth =
     (case List.find (\<lambda>e. id_emp e = empId) (employees c) of
        None \<Rightarrow> None
      | Some employee \<Rightarrow>
          (let mStart = monthStart mth;
               mEnd = monthEnd tz mth;
               monthAttendance = filter (\<lambda>a.
                  AttendanceRecord.employeeId a = empId \<and>
                  parseDate (AttendanceRecord.date a) \<ge> mStart \<and>
                  parseDate (AttendanceRecord.date a) \<le> mEnd) (attendance c);
               monthAdvances = filter (\<lambda>a.
                  Advance.employeeId a = empId \<and>
                  parseDate (Advance.date a) \<ge> mStart \<and>
                  parseDate (Advance.date a) \<le> mEnd) (advances c);
               monthSalaryPayments = filter (\<lambda>p.
                  SalaryPayment.employeeId p = empId \<and>
                  parseDate (paymentDate p) \<ge> mStart \<and>
                  parseDate (paymentDate p) \<le> mEnd) (salaryPayments c);
               totalDays = length (filter present monthAttendance);
               sums = accumulate (dailyWage employee) monthAttendance (0, 0);
               bw = fst sums;
               ae = snd sums;
               twe = bw + ae;
               tat = foldl (\<lambda>sum a. sum + Advance.amount a) 0 monthAdvances;
               tsp = foldl (\<lambda>sum p. sum + SalaryPayment.amount p) 0 monthSalaryPayments;
               final = twe - tat - tsp;
               ot = filter (\<lambda>record. customType record = Some ''ot'') monthAttendance;
               halfDay = filter (\<lambda>record. customType record = Some ''half-day'') monthAttendance;
               customPayment = filter (\<lambda>record. customType record = Some ''custom'') monthAttendance
           in Some \<lparr>MonthlyReportOf.employeeId = empId,
                    month = mth,
                    totalDaysWorked = totalDays,
                    baseWages = bw,
                    additionalEarnings = ae,
                    totalWagesEarned = twe,
                    totalAdvancesTaken = tat,
                    totalSalaryPaid = tsp,
                    finalAmount = final,
                    attendanceDetails = monthAttendance,
                    advanceDetails = monthAdvances,
                    salaryPaymentDetails = monthSalaryPayments,
                    otRecords = ot,
                    halfDayRecords = halfDay,
                    customPaymentRecords = customPayment\<rparr>))"

subsection \<open>\<open>formatBalance\<close>\<close>

text \<open>
  \<open>formatCurrency\<close> comes from \<open>../utils/dateUtils\<close>, which is not part of the sources at
  hand; it is the parameter \<open>fc\<close> wherever the component calls it.
\<close>

definition formatBalance :: "(int \<Rightarrow> string) \<Rightarrow> int \<Rightarrow> string" where
  "formatBalance fc balance =
     (if balance = 0 then fc 0
      else if balance > 0 then ''+'' @ fc balance
      else ''+'' @ fc (abs balance))"

subsection \<open>\<open>filteredEmployees\<close>\<close>

text \<open>
  \<open>String.prototype.toLowerCase\<close> is a built-in of the host. It does not work one
  character at a time: a Greek capital sigma lowers to one small letter inside a word and to
  another, the final sigma, at the end of a word. The filter therefore takes the
  lowering as a parameter \<open>lower\<close>, a function on whole strings, and the theorems about
  the filter hold for every such function. \<open>includes_str\<close> is the substring test of
  \<open>String.prototype.includes\<close>.
\<close>

fun startsWith :: "string \<Rightarrow> string \<Rightarrow> bool" where
  "startsWith s [] = True"
| "startsWith [] (b # t) = False"
| "startsWith (a # s) (b # t) = (a = b \<and> startsWith s t)"

fun includes_str :: "string \<Rightarrow> string \<Rightarrow> bool" where
  "includes_str [] t = (t = [])"
| "includes_str (a # s) t = (startsWith (a # s) t \<or> includes_str s t)"

definition filteredEmployees :: "(string \<Rightarrow> string) \<Rightarrow> ReportManager \<Rightarrow> Employee list" where
  "filteredEmployees lower c =
     filter (\<lambda>employee.
        includes_str (lower (name employee)) (lower (searchTerm c)) \<or>
        includes_str (lower (designation employee)) (lower (searchTerm c)))
      (employees c)"


text \<open>
  \<open>toLowerCase\<close> itself, on a part of Unicode, for the examples: text made of the
  ASCII characters, the Latin-1 letters U+00C0 to U+00FF and the Greek letters U+0391 to
  U+03A9 and U+03B1 to U+03C9, in UTF-8. On ASCII it lowers A to Z byte by byte
  (\<open>toLowerChar\<close>); a Latin-1 or Greek capital is a two-byte character and lowers to its
  small letter; the capital sigma (bytes CE A3) lowers to the final sigma (CF 82) when a
  cased letter comes before it and none comes after it, skipping the case-ignorable
  characters \<open>' . : ^ `\<close> on either side, and to the sigma (CF 83) otherwise. Characters
  outside this part are passed through and are not claimed to be lowered as the host
  lowers them.
\<close>

definition toLowerChar :: "char \<Rightarrow> char" where
  "toLowerChar ch =
     (let n = (of_char ch :: nat) in if 65 \<le> n \<and> n \<le> 90 then char_of (n + 32) else ch)"

definition asciiLetter :: "char \<Rightarrow> bool" where
  "asciiLetter ch =
     (let n = (of_char ch :: nat) in (65 \<le> n \<and> n \<le> 90) \<or> (97 \<le> n \<and> n \<le> 122))"

definition caseIgnorable :: "char \<Rightarrow> bool" where
  "caseIgnorable ch =
     (ch = CHR 0x27 \<or> ch = CHR 0x2E \<or> ch = CHR 0x3A \<or> ch = CHR 0x5E \<or> ch = CHR 0x60)"

definition casedLetter2 :: "char \<Rightarrow> char \<Rightarrow> bool" where
  "casedLetter2 a b =
     (let n = (of_char b :: nat) in
        (a = CHR 0xC3 \<and> 0x80 \<le> n \<and> n \<le> 0xBF \<and> n \<noteq> 0x97 \<and> n \<noteq> 0xB7) \<or>
        (a = CHR 0xCE \<and> ((0x91 \<le> n \<and> n \<le> 0xA9 \<and> n \<noteq> 0xA2) \<or> (0xB1 \<le> n \<and> n \<le> 0xBF))) \<or>
        (a = CHR 0xCF \<and> 0x80 \<le> n \<and> n \<le> 0x89))"

definition twoByteLead :: "char \<Rightarrow> bool" where
  "twoByteLead a = (let n = (of_char a :: nat) in 0xC2 \<le> n \<and> n \<le> 0xDF)"

fun nextIsCased :: "string \<Rightarrow> bool" where
  "nextIsCased [] = False"
| "nextIsCased [a] = asciiLetter a"
| "nextIsCased (a # b # rest) =
     (if caseIgnorable a then nextIsCased (b # rest)
      else asciiLetter a \<or> casedLetter2 a b)"

fun lowerFrom :: "bool \<Rightarrow> string \<Rightarrow> string" where
  "lowerFrom prev [] = []"
| "lowerFrom prev [a] = [toLowerChar a]"
| "lowerFrom prev (a # b # rest) =
     (let n = (of_char b :: nat) in
      if a = CHR 0xCE \<and> n = 0xA3 then
        (if prev \<and> \<not> nextIsCased rest then [CHR 0xCF, CHR 0x82] else [CHR 0xCF, CHR 0x83]) @
        lowerFrom True rest
      else if a = CHR 0xCE \<and> 0x91 \<le> n \<and> n \<le> 0x9F then
        [CHR 0xCE, char_of (n + 0x20)] @ lowerFrom True rest
      else if a = CHR 0xCE \<and> 0xA0 \<le> n \<and> n \<le> 0xA9 then
        [CHR 0xCF, char_of (n - 0x20)] @ lowerFrom True rest
      else if a = CHR 0xC3 \<and> 0x80 \<le> n \<and> n \<le> 0x9E \<and> n \<noteq> 0x97 then
        [CHR 0xC3, char_of (n + 0x20)] @ lowerFrom True rest
      else if twoByteLead a then [a, b] @ lowerFrom (casedLetter2 a b) rest
      else toLowerChar a #
           lowerFrom (if caseIgnorable a then prev else asciiLetter a) (b # rest))"

definition toLowerCase :: "string \<Rightarrow> string" where
  "toLowerCase s = lowerFrom False s"

subsection \<open>\<open>downloadReport\<close>: the payslip text\<close>

text \<open>
  What the host provides: the currency formatter and the three \<open>toLocaleDateString\<close>
  renderings the template asks for (the month heading, a record's date, today's date).
\<close>

record Host =
  formatCurrency :: "int \<Rightarrow> string"
  monthLabel :: "month_token \<Rightarrow> string"
  dateLabel :: "date_string \<Rightarrow> string"
  todayLabel :: string

definition newline :: char where
  "newline = CHR 0x0A"

text \<open>A non-negative whole number inside a template literal: its decimal digits.\<close>

fun showNat :: "nat \<Rightarrow> string" where
  "showNat n =
     (if n < 10 then [char_of (48 + n)]
      else showNat (n div 10) @ [char_of (48 + n mod 10)])"

text \<open>\<open>Array.prototype.join\<close>\<close>

fun join :: "string \<Rightarrow> string list \<Rightarrow> string" where
  "join sep [] = []"
| "join sep [x] = x"
| "join sep (x # y # ys) = x @ sep @ join sep (y # ys)"

text \<open>\<open>record.customAmount || 0\<close>\<close>

definition customAmountOr0 :: "AttendanceRecord \<Rightarrow> int" where
  "customAmountOr0 record =
     (case customAmount record of None \<Rightarrow> 0 | Some v \<Rightarrow> if v \<noteq> 0 then v else 0)"

text \<open>\<open>records.reduce((sum, record) => sum + (record.customAmount || 0), 0)\<close>\<close>

definition customAmountTotal :: "AttendanceRecord list \<Rightarrow> int" where
  "customAmountTotal records = foldl (\<lambda>sum record. sum + customAmountOr0 record) 0 records"

text \<open>The three conditional interpolations of the earnings breakdown.\<close>

definition overtimeLine :: "Host \<Rightarrow> MonthlyReport \<Rightarrow> string" where
  "overtimeLine host r =
     (if length (otRecords r) > 0
      then ''Overtime ('' @ showNat (length (otRecords r)) @ '' days): '' @
           formatCurrency host (customAmountTotal (otRecords r))
      else [])"

definition halfDayLine :: "Host \<Rightarrow> MonthlyReport \<Rightarrow> string" where
  "halfDayLine host r =
     (if length (halfDayRecords r) > 0
      then ''Half Days ('' @ showNat (length (halfDayRecords r)) @ '' days): '' @
           formatCurrency host (customAmountTotal (halfDayRecords r))
      else [])"

definition customPaymentLine :: "Host \<Rightarrow> MonthlyReport \<Rightarrow> string" where
  "customPaymentLine host r =
     (if length (customPaymentRecords r) > 0
      then ''Custom Payments ('' @ showNat (length (customPaymentRecords r)) @ ''): '' @
           formatCurrency host (customAmountTotal (customPaymentRecords r))
      else [])"

text \<open>The lines of the three itemised sections.\<close>

definition attendanceLine :: "Host \<Rightarrow> AttendanceRecord \<Rightarrow> string" where
  "attendanceLine host a =
     dateLabel host (AttendanceRecord.date a) @ '': '' @
     (if present a then ''Present'' else ''Absent'') @
     (case customType a of
        None \<Rightarrow> []
      | Some ty \<Rightarrow> if ty \<noteq> [] then '' ('' @ ty @ '')'' else []) @
     (case customAmount a of
        None \<Rightarrow> []
      | Some v \<Rightarrow> if v \<noteq> 0 then '' +'' @ formatCurrency host v else [])"

definition advanceLine :: "Host \<Rightarrow> Advance \<Rightarrow> string" where
  "advanceLine host a =
     dateLabel host (Advance.date a) @ '': '' @ formatCurrency host (Advance.amount a) @
     '' - '' @ Advance.description a"

definition paymentLine :: "Host \<Rightarrow> SalaryPayment \<Rightarrow> string" where
  "paymentLine host p =
     dateLabel host (paymentDate p) @ '': '' @ formatCurrency host (SalaryPayment.amount p) @
     '' - '' @ SalaryPayment.description p"

text \<open>
  The template literal, line by line: it opens with a line break and ends with a line of
  four blanks. The multiplication sign of the base-wage line, U+00D7, is
  the two bytes C3 97.
\<close>

definition earningsLines :: "Host \<Rightarrow> MonthlyReport \<Rightarrow> Employee \<Rightarrow> string list" where
  "earningsLines host r e =
     [''EARNINGS BREAKDOWN:'',
      ''Base Wages ('' @ showNat (totalDaysWorked r) @ '' days '' @ [CHR 0xC3, CHR 0x97] @ '' '' @
        formatCurrency host (dailyWage e) @ ''): '' @ formatCurrency host (baseWages r),
      ''Additional Earnings: '' @ formatCurrency host (additionalEarnings r),
      overtimeLine host r,
      halfDayLine host r,
      customPaymentLine host r,
      ''Total Wages Earned: '' @ formatCurrency host (totalWagesEarned r)]"

definition reportLines :: "Host \<Rightarrow> MonthlyReport \<Rightarrow> Employee \<Rightarrow> string list" where
  "reportLines host r e =
     [[],
      ''MONTHLY PAYSLIP REPORT'',
      ''======================'',
      [],
      ''Employee Details:'',
      ''Name: '' @ name e,
      ''Designation: '' @ designation e,
      ''Contact: '' @ contactNumber e,
      ''Daily Wage: '' @ formatCurrency host (dailyWage e),
      [],
      ''Report Period: '' @ monthLabel host (month r),
      []] @
     earningsLines host r e @
     [[],
      ''DEDUCTIONS:'',
      ''Advances Taken: '' @ formatCurrency host (totalAdvancesTaken r),
      ''Salary Already Paid: '' @ formatCurrency host (totalSalaryPaid r),
      [],
      ''FINAL CALCULATION:'',
      ''Total Wages Earned: '' @ formatCurrency host (totalWagesEarned r),
      ''Less: Advances: '' @ formatCurrency host (totalAdvancesTaken r),
      ''Less: Salary Paid: '' @ formatCurrency host (totalSalaryPaid r),
      ''Final Amount: '' @ formatBalance (formatCurrency host) (finalAmount r),
      [],
      ''ATTENDANCE DETAILS:'',
      join [newline] (map (attendanceLine host) (attendanceDetails r)),
      [],
      ''ADVANCE DETAILS:'',
      join [newline] (map (advanceLine host) (advanceDetails r)),
      [],
      ''SALARY PAYMENT DETAILS:'',
      join [newline] (map (paymentLine host) (salaryPaymentDetails r)),
      [],
      ''Generated on: '' @ todayLabel host,
      ''    '']"

definition reportContent :: "Host \<Rightarrow> MonthlyReport \<Rightarrow> Employee \<Rightarrow> string" where
  "reportContent host r e = join [newline] (reportLines host r e)"

text \<open>
  \<open>selectedEmployeeData\<close> and \<open>monthlyReport\<close> are null while no employee is selected
  (the empty string). \<open>downloadReport\<close> returns early when either is null; otherwise
  the text below is what it hands to the browser as the file's content.
\<close>

definition selectedEmployeeData :: "ReportManager \<Rightarrow> Employee option" where
  "selectedEmployeeData c =
     (if selectedEmployee c \<noteq> []
      then List.find (\<lambda>e. id_emp e = selectedEmployee c) (employees c) else None)"

definition monthlyReport :: "int \<Rightarrow> ReportManager \<Rightarrow> MonthlyReport option" where
  "monthlyReport tz c =
     (if selectedEmployee c \<noteq> []
      then generateMonthlyReport tz c (selectedEmployee c) (selectedMonth c) else None)"

definition downloadReport :: "int \<Rightarrow> Host \<Rightarrow> ReportManager \<Rightarrow> string option" where
  "downloadReport tz host c =
     (case monthlyReport tz c of
        None \<Rightarrow> None
      | Some r \<Rightarrow>
          (case selectedEmployeeData c of
             None \<Rightarrow> None
           | Some e \<Rightarrow> Some (reportContent host r e)))"

subsection \<open>The same operations on a store of arrays\<close>

text \<open>
  In the source the four collections are arrays that the component shares with its
  caller, and every \<open>filter\<close> makes a new array. To speak about what a call leaves
  behind, the operations are given once more over a store: arrays live at references,
  reading an array looks its reference up, and \<open>filter\<close> writes its result at the next
  free reference. \<open>find\<close>, \<open>forEach\<close>, \<open>reduce\<close> and \<open>length\<close> only read.
\<close>

record Heap =
  employeeArr :: "nat \<Rightarrow> Employee list"
  attendanceArr :: "nat \<Rightarrow> AttendanceRecord list"
  advanceArr :: "nat \<Rightarrow> Advance list"
  paymentArr :: "nat \<Rightarrow> SalaryPayment list"
  nextRef :: nat

record Props =
  employeesRef :: nat
  attendanceRef :: nat
  advancesRef :: nat
  salaryPaymentsRef :: nat

definition filterEmployees :: "(Employee \<Rightarrow> bool) \<Rightarrow> nat \<Rightarrow> Heap \<Rightarrow> nat \<times> Heap" where
  "filterEmployees P a h =
     (nextRef h,
      h\<lparr>employeeArr := (employeeArr h)(nextRef h := filter P (employeeArr h a)),
        nextRef := Suc (nextRef h)\<rparr>)"

definition filterAttendance ::
  "(AttendanceRecord \<Rightarrow> bool) \<Rightarrow> nat \<Rightarrow> Heap \<Rightarrow> nat \<times> Heap" where
  "filterAttendance P a h =
     (nextRef h,
      h\<lparr>attendanceArr := (attendanceArr h)(nextRef h := filter P (attendanceArr h a)),
        nextRef := Suc (nextRef h)\<rparr>)"

definition filterAdvances :: "(Advance \<Rightarrow> bool) \<Rightarrow> nat \<Rightarrow> Heap \<Rightarrow> nat \<times> Heap" where
  "filterAdvances P a h =
     (nextRef h,
      h\<lparr>advanceArr := (advanceArr h)(nextRef h := filter P (advanceArr h a)),
        nextRef := Suc (nextRef h)\<rparr>)"

definition filterPayments :: "(SalaryPayment \<Rightarrow> bool) \<Rightarrow> nat \<Rightarrow> Heap \<Rightarrow> nat \<times> Heap" where
  "filterPayments P a h =
     (nextRef h,
      h\<lparr>paymentArr := (paymentArr h)(nextRef h := filter P (paymentArr h a)),
        nextRef := Suc (nextRef h)\<rparr>)"

definition generateMonthlyReport_heap ::
  "int \<Rightarrow> Props \<Rightarrow> string \<Rightarrow> month_token \<Rightarrow> Heap \<Rightarrow> MonthlyReportObj option \<times> Heap" where
  "generateMonthlyReport_heap tz props empId mth h =
     (case List.find (\<lambda>e. id_emp e = empId) (employeeArr h (employeesRef props)) of
        None \<Rightarrow> (None, h)
      | Some employee \<Rightarrow>
          (let mStart = monthStart mth;
               mEnd = monthEnd tz mth;
               (monthAttendance, h1) = filterAttendance (\<lambda>a.
                  AttendanceRecord.employeeId a = empId \<and>
                  parseDate (AttendanceRecord.date a) \<ge> mStart \<and>
                  parseDate (AttendanceRecord.date a) \<le> mEnd) (attendanceRef props) h;
               (monthAdvances, h2) = filterAdvances (\<lambda>a.
                  Advance.employeeId a = empId \<and>
                  parseDate (Advance.date a) \<ge> mStart \<and>
                  parseDate (Advance.date a) \<le> mEnd) (advancesRef props) h1;
               (monthSalaryPayments, h3) = filterPayments (\<lambda>p.
                  SalaryPayment.employeeId p = empId \<and>
                  parseDate (paymentDate p) \<ge> mStart \<and>
                  parseDate (paymentDate p) \<le> mEnd) (salaryPaymentsRef props) h2;
               (presentRecords, h4) = filterAttendance present monthAttendance h3;
               totalDays = length (attendanceArr h4 presentRecords);
               sums = accumulate (dailyWage employee) (attendanceArr h4 monthAttendance) (0, 0);
               bw = fst sums;
               ae = snd sums;
               twe = bw + ae;
               tat = foldl (\<lambda>sum a. sum + Advance.amount a) 0 (advanceArr h4 monthAdvances);
               tsp = foldl (\<lambda>sum p. sum + SalaryPayment.amount p) 0
                       (paymentArr h4 monthSalaryPayments);
               final = twe - tat - tsp;
               (ot, h5) = filterAttendance
                  (\<lambda>record. customType record = Some ''ot'') monthAttendance h4;
               (halfDay, h6) = filterAttendance
                  (\<lambda>record. customType record = Some ''half-day'') monthAttendance h5;
               (customPayment, h7) = filterAttendance
                  (\<lambda>record. customType record = Some ''custom'') monthAttendance h6
           in (Some \<lparr>MonthlyReportOf.employeeId = empId,
                     month = mth,
                     totalDaysWorked = totalDays,
                     baseWages = bw,
                     additionalEarnings = ae,
                     totalWagesEarned = twe,
                     totalAdvancesTaken = tat,
                     totalSalaryPaid = tsp,
                     finalAmount = final,
                     attendanceDetails = monthAttendance,
                     advanceDetails = monthAdvances,
                     salaryPaymentDetails = monthSalaryPayments,
                     otRecords = ot,
                     halfDayRecords = halfDay,
                     customPaymentRecords = customPayment\<rparr>, h7)))"

definition filteredEmployees_heap ::
  "(string \<Rightarrow> string) \<Rightarrow> Props \<Rightarrow> string \<Rightarrow> Heap \<Rightarrow> nat \<times> Heap" where
  "filteredEmployees_heap lower p term h =
     filterEmployees (\<lambda>employee.
        includes_str (lower (name employee)) (lower term) \<or>
        includes_str (lower (designation employee)) (lower term))
      (employeesRef p) h"

text \<open>
  Reading a report object off the store; and \<open>holds h p c\<close>: the four arrays that the
  props refer to have, on the store \<open>h\<close>, the contents that \<open>c\<close> records.
\<close>

definition derefReport :: "Heap \<Rightarrow> MonthlyReportObj \<Rightarrow> MonthlyReport" where
  "derefReport h r =
     \<lparr>MonthlyReportOf.employeeId = MonthlyReportOf.employeeId r,
      month = month r,
      totalDaysWorked = totalDaysWorked r,
      baseWages = baseWages r,
      additionalEarnings = additionalEarnings r,
      totalWagesEarned = totalWagesEarned r,
      totalAdvancesTaken = totalAdvancesTaken r,
      totalSalaryPaid = totalSalaryPaid r,
      finalAmount = finalAmount r,
      attendanceDetails = attendanceArr h (attendanceDetails r),
      advanceDetails = advanceArr h (advanceDetails r),
      salaryPaymentDetails = paymentArr h (salaryPaymentDetails r),
      otRecords = attendanceArr h (otRecords r),
      halfDayRecords = attendanceArr h (halfDayRecords r),
      customPaymentRecords = attendanceArr h (customPaymentRecords r)\<rparr>"

definition holds :: "Heap \<Rightarrow> Props \<Rightarrow> ReportManager \<Rightarrow> bool" where
  "holds h p c =
     (employeeArr h (employeesRef p) = employees c \<and>
      attendanceArr h (attendanceRef p) = attendance c \<and>
      advanceArr h (advancesRef p) = advances c \<and>
      paymentArr h (salaryPaymentsRef p) = salaryPayments c)"

text \<open>The collections were created before the call: their references are in use.\<close>

definition allocated :: "Heap \<Rightarrow> Props \<Rightarrow> bool" where
  "allocated h p =
     (employeesRef p < nextRef h \<and> attendanceRef p < nextRef h \<and>
      advancesRef p < nextRef h \<and> salaryPaymentsRef p < nextRef h)"

subsection \<open>The two sums of custom amounts in binary64\<close>

text \<open>
  The amounts of the source are binary64 numbers. The integers of the model above are
  exact for them as long as the amounts are whole numbers and the sums stay below
  \<open>2 ^ 53\<close>, where binary64 addition does not round. For amounts with a fractional
  part the additions round, and the two places that add custom amounts group their
  additions differently: the \<open>forEach\<close> of \<open>generateMonthlyReport\<close> keeps one running
  total over all records, the payslip runs one \<open>reduce\<close> per category list. Both are
  given here once more over binary64 numbers.

  A finite binary64 number is kept as a pair \<open>(m, e)\<close> of integers that stands for
  \<open>m * 2 ^ e\<close>. \<open>addExact\<close> is the exact sum, \<open>round53\<close> rounds to 53 significant bits,
  to the nearest and at a tie to the even one, and \<open>add64\<close> is the addition of the
  host. Overflow and subnormal numbers are not modelled.
\<close>

type_synonym binary64 = "int \<times> int"

text \<open>How many times a number has to be halved to get below \<open>2 ^ 53\<close>.\<close>

function excessBits :: "int \<Rightarrow> nat" where
  "excessBits a = (if a < 2 ^ 53 then 0 else Suc (excessBits (a div 2)))"
  by pat_completeness auto
termination
  by (relation "measure nat") auto

definition addExact :: "binary64 \<Rightarrow> binary64 \<Rightarrow> binary64" where
  "addExact x y =
     (case x of (m1, e1) \<Rightarrow> case y of (m2, e2) \<Rightarrow>
        (let e = min e1 e2
         in (m1 * 2 ^ nat (e1 - e) + m2 * 2 ^ nat (e2 - e), e)))"

definition round53 :: "binary64 \<Rightarrow> binary64" where
  "round53 x =
     (case x of (m, e) \<Rightarrow>
        if \<bar>m\<bar> < 2 ^ 53 then (m, e)
        else
          (let k = excessBits \<bar>m\<bar>;
               q = \<bar>m\<bar> div 2 ^ k;
               r = \<bar>m\<bar> mod 2 ^ k;
               half = 2 ^ (k - 1);
               q' = (if r < half then q
                     else if half < r then q + 1
                     else if even q then q else q + 1)
           in ((if 0 \<le> m then q' else - q'), e + int k)))"

definition add64 :: "binary64 \<Rightarrow> binary64 \<Rightarrow> binary64" where
  "add64 x y = round53 (addExact x y)"

text \<open>Comparing two numbers: bring both to the smaller exponent.\<close>

definition less64 :: "binary64 \<Rightarrow> binary64 \<Rightarrow> bool" where
  "less64 x y =
     (case x of (m1, e1) \<Rightarrow> case y of (m2, e2) \<Rightarrow>
        (let e = min e1 e2 in m1 * 2 ^ nat (e1 - e) < m2 * 2 ^ nat (e2 - e)))"

text \<open>
  A row is what the two sums read of an attendance record: its category tag and its
  custom amount. \<open>rows64\<close> reads the rows off records with whole-number amounts.
\<close>

type_synonym row64 = "string option \<times> binary64 option"

definition rows64 :: "AttendanceRecord list \<Rightarrow> row64 list" where
  "rows64 records =
     map (\<lambda>record. (customType record, map_option (\<lambda>v. (v, 0)) (customAmount record))) records"

text \<open>
  The running total \<open>additionalEarnings\<close> of the \<open>forEach\<close>:
  \<open>if (record.customAmount) additionalEarnings += record.customAmount\<close>.
\<close>

fun additionalEarnings64 :: "binary64 \<Rightarrow> row64 list \<Rightarrow> binary64" where
  "additionalEarnings64 ae [] = ae"
| "additionalEarnings64 ae ((ty, amt) # rest) =
     additionalEarnings64
       (case amt of
          None \<Rightarrow> ae
        | Some v \<Rightarrow> if fst v \<noteq> 0 then add64 ae v else ae) rest"

text \<open>\<open>records.reduce((sum, record) => sum + (record.customAmount || 0), 0)\<close>\<close>

definition customAmountTotal64 :: "row64 list \<Rightarrow> binary64" where
  "customAmountTotal64 rows =
     foldl (\<lambda>sum row. add64 sum
              (case snd row of None \<Rightarrow> (0, 0) | Some v \<Rightarrow> if fst v \<noteq> 0 then v else (0, 0)))
       (0, 0) rows"

text \<open>\<open>monthAttendance.filter(record => record.customType === tag)\<close>\<close>

definition categoryRows :: "string \<Rightarrow> row64 list \<Rightarrow> row64 list" where
  "categoryRows tag rows = filter (\<lambda>row. fst row = Some tag) rows"

subsection \<open>Example data\<close>

definition employee1 :: Employee where
  "employee1 = \<lparr>id_emp = ''e1'', name = ''Asha Verma'', designation = ''Mason'',
     contactNumber = ''9876543210'', dailyWage = 500\<rparr>"

definition employee2 :: Employee where
  "employee2 = \<lparr>id_emp = ''e2'', name = ''Ravi Das'', designation = ''Site Manager'',
     contactNumber = ''9123456780'', dailyWage = 650\<rparr>"

definition att :: "date_string \<Rightarrow> bool \<Rightarrow> string option \<Rightarrow> int option \<Rightarrow> AttendanceRecord" where
  "att d p ty v = \<lparr>AttendanceRecord.employeeId = ''e1'', AttendanceRecord.date = d,
     present = p, customType = ty, customAmount = v\<rparr>"

definition attendance1 :: "AttendanceRecord list" where
  "attendance1 =
     [att (2023, 12, 31) True None None,
      att (2024, 1, 1) True None None,
      att (2024, 1, 10) True None (Some 50),
      att (2024, 1, 15) False (Some ''ot'') (Some 300),
      att (2024, 1, 31) True (Some ''half-day'') (Some 0),
      att (2024, 2, 1) True None None]"

definition advances1 :: "Advance list" where
  "advances1 = [\<lparr>Advance.employeeId = ''e1'', Advance.date = (2024, 1, 5),
     Advance.amount = 200, Advance.description = ''festival''\<rparr>]"

definition payments1 :: "SalaryPayment list" where
  "payments1 = [\<lparr>SalaryPayment.employeeId = ''e1'', paymentDate = (2024, 1, 20),
     SalaryPayment.amount = 100, SalaryPayment.description = ''part''\<rparr>]"

definition manager1 :: ReportManager where
  "manager1 = \<lparr>employees = [employee1, employee2], attendance = attendance1,
     advances = advances1, salaryPayments = payments1, selectedEmployee = ''e1'',
     selectedMonth = (2024, 1), searchTerm = ''MAS''\<rparr>"

text \<open>A stand-in for the host in the examples: amounts as plain decimal digits.\<close>

definition plainAmount :: "int \<Rightarrow> string" where
  "plainAmount v = (if v < 0 then ''-'' @ showNat (nat (- v)) else showNat (nat v))"

definition host1 :: Host where
  "host1 = \<lparr>formatCurrency = plainAmount, monthLabel = (\<lambda>m. ''January 2024''),
     dateLabel = (\<lambda>d. showNat (nat (snd (snd d)))), todayLabel = ''2/11/2026''\<rparr>"

definition heap1 :: Heap where
  "heap1 = \<lparr>employeeArr = (\<lambda>a. [])(0 := [employee1, employee2]),
     attendanceArr = (\<lambda>a. [])(1 := attendance1),
     advanceArr = (\<lambda>a. [])(2 := advances1),
     paymentArr = (\<lambda>a. [])(3 := payments1),
     nextRef = 4\<rparr>"

definition props1 :: Props where
  "props1 = \<lparr>employeesRef = 0, attendanceRef = 1, advancesRef = 2, salaryPaymentsRef = 3\<rparr>"

definition report1 :: MonthlyReport where
  "report1 =
     \<lparr>MonthlyReportOf.employeeId = ''e1'', month = (2024, 1), totalDaysWorked = 3,
      baseWages = 1500, additionalEarnings = 350, totalWagesEarned = 1850,
      totalAdvancesTaken = 200, totalSalaryPaid = 100, finalAmount = 1550,
      attendanceDetails =
        [att (2024, 1, 1) True None None,
         att (2024, 1, 10) True None (Some 50),
         att (2024, 1, 15) False (Some ''ot'') (Some 300),
         att (2024, 1, 31) True (Some ''half-day'') (Some 0)],
      advanceDetails = advances1,
      salaryPaymentDetails = payments1,
      otRecords = [att (2024, 1, 15) False (Some ''ot'') (Some 300)],
      halfDayRecords = [att (2024, 1, 31) True (Some ''half-day'') (Some 0)],
      customPaymentRecords = []\<rparr>"

definition overtime20 :: AttendanceRecord where
  "overtime20 = att (2024, 1, 20) False (Some ''ot'') (Some 300)"

definition manager1_overtime :: ReportManager where
  "manager1_overtime = manager1\<lparr>attendance := attendance1 @ [overtime20]\<rparr>"

definition lastDayRecord :: AttendanceRecord where
  "lastDayRecord = att (2024, 1, 31) True None None"

definition lastDayAdvance :: Advance where
  "lastDayAdvance = \<lparr>Advance.employeeId = ''e1'', Advance.date = (2024, 1, 31),
     Advance.amount = 200, Advance.description = ''cash''\<rparr>"

definition lastDayPayment :: SalaryPayment where
  "lastDayPayment = \<lparr>SalaryPayment.employeeId = ''e1'', paymentDate = (2024, 1, 31),
     SalaryPayment.amount = 100, SalaryPayment.description = ''part''\<rparr>"

definition manager2 :: ReportManager where
  "manager2 = \<lparr>employees = [employee1], attendance = [lastDayRecord],
     advances = [lastDayAdvance], salaryPayments = [lastDayPayment],
     selectedEmployee = ''e1'', selectedMonth = (2024, 1), searchTerm = []\<rparr>"

definition firstDayRecord :: AttendanceRecord where
  "firstDayRecord = att (2024, 1, 1) True None None"

definition manager3 :: ReportManager where
  "manager3 = \<lparr>employees = [employee1], attendance = [firstDayRecord],
     advances = [], salaryPayments = [],
     selectedEmployee = ''e1'', selectedMonth = (2024, 1), searchTerm = []\<rparr>"


definition heap1_after :: Heap where
  "heap1_after = snd (generateMonthlyReport_heap 0 props1 ''e1'' (2024, 1) heap1)"

text \<open>
  An employee whose name is the two Greek capitals alpha and sigma, searched for with the
  capital sigma; and an employee named JOS followed by the capital E with acute accent,
  searched for with the small e with acute accent.
\<close>

definition employee3 :: Employee where
  "employee3 = \<lparr>id_emp = ''e3'', name = [CHR 0xCE, CHR 0x91, CHR 0xCE, CHR 0xA3],
     designation = ''Driver'', contactNumber = ''9000000003'', dailyWage = 400\<rparr>"

definition manager4 :: ReportManager where
  "manager4 = \<lparr>employees = [employee3], attendance = [], advances = [],
     salaryPayments = [], selectedEmployee = [], selectedMonth = (2024, 1),
     searchTerm = [CHR 0xCE, CHR 0xA3]\<rparr>"

definition employee4 :: Employee where
  "employee4 = \<lparr>id_emp = ''e4'', name = ''JOS'' @ [CHR 0xC3, CHR 0x89],
     designation = ''Painter'', contactNumber = ''9000000004'', dailyWage = 450\<rparr>"

definition manager5 :: ReportManager where
  "manager5 = \<lparr>employees = [employee4], attendance = [], advances = [],
     salaryPayments = [], selectedEmployee = [], selectedMonth = (2024, 1),
     searchTerm = [CHR 0xC3, CHR 0xA9]\<rparr>"

text \<open>
  The binary64 numbers written 100.1, 200.2 and 50.05, and three rows of a month: one
  overtime record with 100.1 and two half-day records with 200.2 and 50.05.
\<close>

definition amount_100_1 :: binary64 where
  "amount_100_1 = (7043911292184166, - 46)"

definition amount_200_2 :: binary64 where
  "amount_200_2 = (7043911292184166, - 45)"

definition amount_50_05 :: binary64 where
  "amount_50_05 = (7043911292184166, - 47)"

definition rows1 :: "row64 list" where
  "rows1 = [(Some ''ot'', Some amount_100_1), (Some ''half-day'', Some amount_200_2),
     (Some ''half-day'', Some amount_50_05)]"

section \<open>Properties\<close>

subsection \<open>Helper lemmas\<close>

lemma foldl_add_sum_list:
  "foldl (\<lambda>s x. s + f x) (k::int) xs = k + sum_list (map f xs)"
  by (induction xs arbitrary: k) simp_all

lemma customAmountOr0_simps:
  "customAmountOr0 a = (case customAmount a of None \<Rightarrow> 0 | Some v \<Rightarrow> v)"
  by (simp add: customAmountOr0_def split: option.splits)

lemma customAmountTotal_sum: "customAmountTotal rs = sum_list (map customAmountOr0 rs)"
  by (simp add: customAmountTotal_def foldl_add_sum_list)

text \<open>The loop adds the wage once per present record and every custom amount.\<close>

lemma accumulate_eq:
  "accumulate w rs (bw, ae) =
     (bw + w * int (length (filter present rs)), ae + sum_list (map customAmountOr0 rs))"
proof (induction rs arbitrary: bw ae)
  case Nil
  show ?case by simp
next
  case (Cons a rs)
  show ?case
    by (simp add: Cons.IH Let_def customAmountOr0_def algebra_simps split: option.splits)
qed

lemma find_None_image: "(List.find (\<lambda>e. f e = k) xs = None) = (k \<notin> f ` set xs)"
  by (auto simp: find_None_iff)

lemma report_None:
  "(generateMonthlyReport tz c empId mth = None) =
   (List.find (\<lambda>e. id_emp e = empId) (employees c) = None)"
  by (cases "List.find (\<lambda>e. id_emp e = empId) (employees c)")
     (simp_all add: generateMonthlyReport_def Let_def)

text \<open>The fields of a report that was returned, read off the definition.\<close>

lemma report_fields:
  assumes "generateMonthlyReport tz c empId mth = Some r"
  shows "attendanceDetails r = filter (\<lambda>a. AttendanceRecord.employeeId a = empId \<and>
           monthStart mth \<le> parseDate (AttendanceRecord.date a) \<and>
           parseDate (AttendanceRecord.date a) \<le> monthEnd tz mth) (attendance c)"
    and "advanceDetails r = filter (\<lambda>a. Advance.employeeId a = empId \<and>
           monthStart mth \<le> parseDate (Advance.date a) \<and>
           parseDate (Advance.date a) \<le> monthEnd tz mth) (advances c)"
    and "salaryPaymentDetails r = filter (\<lambda>p. SalaryPayment.employeeId p = empId \<and>
           monthStart mth \<le> parseDate (paymentDate p) \<and>
           parseDate (paymentDate p) \<le> monthEnd tz mth) (salaryPayments c)"
    and "totalDaysWorked r = length (filter present (attendanceDetails r))"
    and "additionalEarnings r = sum_list (map customAmountOr0 (attendanceDetails r))"
    and "totalWagesEarned r = baseWages r + additionalEarnings r"
    and "totalAdvancesTaken r = sum_list (map Advance.amount (advanceDetails r))"
    and "totalSalaryPaid r = sum_list (map SalaryPayment.amount (salaryPaymentDetails r))"
    and "finalAmount r = totalWagesEarned r - totalAdvancesTaken r - totalSalaryPaid r"
    and "otRecords r = filter (\<lambda>record. customType record = Some ''ot'') (attendanceDetails r)"
    and "halfDayRecords r =
           filter (\<lambda>record. customType record = Some ''half-day'') (attendanceDetails r)"
    and "customPaymentRecords r =
           filter (\<lambda>record. customType record = Some ''custom'') (attendanceDetails r)"
    and "MonthlyReportOf.employeeId r = empId"
    and "month r = mth"
proof -
  define A where "A = filter (\<lambda>a. AttendanceRecord.employeeId a = empId \<and>
           monthStart mth \<le> parseDate (AttendanceRecord.date a) \<and>
           parseDate (AttendanceRecord.date a) \<le> monthEnd tz mth) (attendance c)"
  define B where "B = filter (\<lambda>a. Advance.employeeId a = empId \<and>
           monthStart mth \<le> parseDate (Advance.date a) \<and>
           parseDate (Advance.date a) \<le> monthEnd tz mth) (advances c)"
  define C where "C = filter (\<lambda>p. SalaryPayment.employeeId p = empId \<and>
           monthStart mth \<le> parseDate (paymentDate p) \<and>
           parseDate (paymentDate p) \<le> monthEnd tz mth) (salaryPayments c)"
  from assms have "List.find (\<lambda>e. id_emp e = empId) (employees c) \<noteq> None"
    by (simp flip: report_None [of tz c empId mth])
  then obtain employee where
    f: "List.find (\<lambda>e. id_emp e = empId) (employees c) = Some employee"
    by blast
  define X :: MonthlyReport where "X =
     \<lparr>MonthlyReportOf.employeeId = empId, month = mth,
       totalDaysWorked = length (filter present A),
       baseWages = fst (accumulate (dailyWage employee) A (0, 0)),
       additionalEarnings = snd (accumulate (dailyWage employee) A (0, 0)),
       totalWagesEarned = fst (accumulate (dailyWage employee) A (0, 0)) +
         snd (accumulate (dailyWage employee) A (0, 0)),
       totalAdvancesTaken = foldl (\<lambda>sum a. sum + Advance.amount a) 0 B,
       totalSalaryPaid = foldl (\<lambda>sum p. sum + SalaryPayment.amount p) 0 C,
       finalAmount = fst (accumulate (dailyWage employee) A (0, 0)) +
         snd (accumulate (dailyWage employee) A (0, 0)) -
         foldl (\<lambda>sum a. sum + Advance.amount a) 0 B -
         foldl (\<lambda>sum p. sum + SalaryPayment.amount p) 0 C,
       attendanceDetails = A, advanceDetails = B, salaryPaymentDetails = C,
       otRecords = filter (\<lambda>record. customType record = Some ''ot'') A,
       halfDayRecords = filter (\<lambda>record. customType record = Some ''half-day'') A,
       customPaymentRecords = filter (\<lambda>record. customType record = Some ''custom'') A\<rparr>"
  have "generateMonthlyReport tz c empId mth = Some X"
    unfolding generateMonthlyReport_def f Let_def X_def A_def B_def C_def
    by (simp only: option.case)
  with assms have "Some r = Some X"
    by (simp only:)
  then have rX: "r = X"
    by (simp only: option.inject)
  note r = rX X_def
  show "attendanceDetails r = filter (\<lambda>a. AttendanceRecord.employeeId a = empId \<and>
           monthStart mth \<le> parseDate (AttendanceRecord.date a) \<and>
           parseDate (AttendanceRecord.date a) \<le> monthEnd tz mth) (attendance c)"
    by (simp add: r A_def)
  show "advanceDetails r = filter (\<lambda>a. Advance.employeeId a = empId \<and>
           monthStart mth \<le> parseDate (Advance.date a) \<and>
           parseDate (Advance.date a) \<le> monthEnd tz mth) (advances c)"
    by (simp add: r B_def)
  show "salaryPaymentDetails r = filter (\<lambda>p. SalaryPayment.employeeId p = empId \<and>
           monthStart mth \<le> parseDate (paymentDate p) \<and>
           parseDate (paymentDate p) \<le> monthEnd tz mth) (salaryPayments c)"
    by (simp add: r C_def)
  show "totalDaysWorked r = length (filter present (attendanceDetails r))"
    by (simp add: r)
  show "additionalEarnings r = sum_list (map customAmountOr0 (attendanceDetails r))"
    by (simp add: r accumulate_eq)
  show "totalWagesEarned r = baseWages r + additionalEarnings r"
    by (simp add: r)
  show "totalAdvancesTaken r = sum_list (map Advance.amount (advanceDetails r))"
    by (simp add: r foldl_add_sum_list)
  show "totalSalaryPaid r = sum_list (map SalaryPayment.amount (salaryPaymentDetails r))"
    by (simp add: r foldl_add_sum_list)
  show "finalAmount r = totalWagesEarned r - totalAdvancesTaken r - totalSalaryPaid r"
    by (simp add: r)
  show "otRecords r = filter (\<lambda>record. customType record = Some ''ot'') (attendanceDetails r)"
    by (simp add: r)
  show "halfDayRecords r =
           filter (\<lambda>record. customType record = Some ''half-day'') (attendanceDetails r)"
    by (simp add: r)
  show "customPaymentRecords r =
           filter (\<lambda>record. customType record = Some ''custom'') (attendanceDetails r)"
    by (simp add: r)
  show "MonthlyReportOf.employeeId r = empId"
    by (simp add: r)
  show "month r = mth"
    by (simp add: r)
qed

lemma report_of_found:
  assumes "List.find (\<lambda>e. id_emp e = empId) (employees c) = Some employee"
  shows "\<exists>r. generateMonthlyReport tz c empId mth = Some r"
proof -
  from assms have "generateMonthlyReport tz c empId mth \<noteq> None"
    by (simp add: report_None)
  then show ?thesis by blast
qed

lemma three_filters_le:
  assumes "\<forall>a \<in> set xs. (0::int) \<le> f a"
    and "\<And>a. \<not> (P a \<and> Q a)" and "\<And>a. \<not> (P a \<and> R a)" and "\<And>a. \<not> (Q a \<and> R a)"
  shows "sum_list (map f (filter P xs)) + sum_list (map f (filter Q xs)) +
         sum_list (map f (filter R xs)) \<le> sum_list (map f xs)"
  using assms(1)
proof (induction xs)
  case Nil
  show ?case by simp
next
  case (Cons a xs)
  then have ih: "sum_list (map f (filter P xs)) + sum_list (map f (filter Q xs)) +
         sum_list (map f (filter R xs)) \<le> sum_list (map f xs)" and a: "0 \<le> f a"
    by simp_all
  from assms(2) [of a] assms(3) [of a] assms(4) [of a] ih a show ?case
    by auto
qed

subsection \<open>The example evaluated\<close>

lemma report1_eq: "generateMonthlyReport 0 manager1 ''e1'' (2024, 1) = Some report1"
  by code_simp

lemma in_month_bounds_overtime20:
  "monthStart (2024, 1) \<le> parseDate (AttendanceRecord.date overtime20) \<and>
   parseDate (AttendanceRecord.date overtime20) \<le> monthEnd 0 (2024, 1)"
  by code_simp

lemma calendar_examples:
  "days_from_civil 1970 1 1 = 0"
  "days_from_civil 2024 1 31 = 19753"
  "days_from_civil 2024 3 1 - days_from_civil 2024 2 1 = 29"
  "civil_from_days 0 = (1970, 1, 1)"
  "civil_from_days 19753 = (2024, 1, 31)"
  "civil_from_days (- 1) = (1969, 12, 31)"
  by code_simp+

text \<open>
  The bounds of January 2024 on a host at UTC, at UTC+05:30 and at UTC-05:00, and the
  time value of the record date 2024-01-31.
\<close>

lemma month_bounds_examples:
  "monthStart (2024, 1) = 1704067200000"
  "monthEnd 0 (2024, 1) = 1706659200000"
  "monthEnd 330 (2024, 1) = 1706639400000"
  "monthEnd (- 300) (2024, 1) = 1703998800000"
  "parseDate (2024, 1, 31) = 1706659200000"
  by code_simp+

lemma monthlyReport1: "monthlyReport 0 manager1 = Some report1"
  by code_simp

lemma selectedEmployeeData1: "selectedEmployeeData manager1 = Some employee1"
  by code_simp

subsection \<open>The report\<close>

text \<open>
  C1. Every report that \<open>generateMonthlyReport\<close> returns has total wages equal to base
  wages plus additional earnings, and a final amount equal to total wages minus advances
  minus salary paid, where the advances taken are the sum of the amounts of the
  employee's advances of the month and the salary paid is the sum of the amounts of the
  employee's salary payments of the month.
\<close>

theorem C1_report_totals:
  assumes "generateMonthlyReport tz c empId mth = Some r"
  shows "totalWagesEarned r = baseWages r + additionalEarnings r \<and>
         finalAmount r = totalWagesEarned r - totalAdvancesTaken r - totalSalaryPaid r \<and>
         totalAdvancesTaken r = sum_list (map Advance.amount (advanceDetails r)) \<and>
         totalSalaryPaid r = sum_list (map SalaryPayment.amount (salaryPaymentDetails r)) \<and>
         advanceDetails r = filter (\<lambda>a. Advance.employeeId a = empId \<and>
            monthStart mth \<le> parseDate (Advance.date a) \<and>
            parseDate (Advance.date a) \<le> monthEnd tz mth) (advances c) \<and>
         salaryPaymentDetails r = filter (\<lambda>p. SalaryPayment.employeeId p = empId \<and>
            monthStart mth \<le> parseDate (paymentDate p) \<and>
            parseDate (paymentDate p) \<le> monthEnd tz mth) (salaryPayments c)"
  using report_fields(6,9,7,8,2,3) [OF assms] by (intro conjI)

theorem C1_report_totals_witness:
  "generateMonthlyReport 0 manager1 ''e1'' (2024, 1) = Some report1 \<and>
   totalWagesEarned report1 = baseWages report1 + additionalEarnings report1 \<and>
   finalAmount report1 =
     totalWagesEarned report1 - totalAdvancesTaken report1 - totalSalaryPaid report1 \<and>
   totalAdvancesTaken report1 = sum_list (map Advance.amount (advanceDetails report1)) \<and>
   totalSalaryPaid report1 =
     sum_list (map SalaryPayment.amount (salaryPaymentDetails report1)) \<and>
   totalWagesEarned report1 = 1850 \<and> finalAmount report1 = 1550"
  using C1_report_totals [OF report1_eq] report1_eq by (simp add: report1_def)

text \<open>
  C3. An employee identifier that no employee of the collection carries gives the null
  result, and only such an identifier does: every identifier that resolves gives a
  report, for that identifier and month. The function has no other outcome.
\<close>

theorem C3_unknown_employee_is_null:
  "(generateMonthlyReport tz c empId mth = None \<longleftrightarrow> empId \<notin> id_emp ` set (employees c)) \<and>
   (empId \<in> id_emp ` set (employees c) \<longrightarrow>
      (\<exists>r. generateMonthlyReport tz c empId mth = Some r \<and>
           MonthlyReportOf.employeeId r = empId \<and> month r = mth))"
proof -
  have iff: "generateMonthlyReport tz c empId mth = None \<longleftrightarrow>
      empId \<notin> id_emp ` set (employees c)"
    by (simp only: report_None find_None_image)
  have some: "\<exists>r. generateMonthlyReport tz c empId mth = Some r \<and>
           MonthlyReportOf.employeeId r = empId \<and> month r = mth"
    if "empId \<in> id_emp ` set (employees c)"
  proof -
    from that iff obtain r where r: "generateMonthlyReport tz c empId mth = Some r"
      by (cases "generateMonthlyReport tz c empId mth") auto
    from report_fields(13,14) [OF r] r show ?thesis by blast
  qed
  from iff some show ?thesis by blast
qed

theorem C3_unknown_employee_is_null_witness:
  "''e9'' \<notin> id_emp ` set (employees manager1) \<and>
   generateMonthlyReport 0 manager1 ''e9'' (2024, 1) = None \<and>
   ''e1'' \<in> id_emp ` set (employees manager1) \<and>
   (\<exists>r. generateMonthlyReport 0 manager1 ''e1'' (2024, 1) = Some r \<and>
        MonthlyReportOf.employeeId r = ''e1'' \<and> month r = (2024, 1))"
proof -
  have a: "''e9'' \<notin> id_emp ` set (employees manager1)"
    by (simp add: manager1_def employee1_def employee2_def)
  have b: "''e1'' \<in> id_emp ` set (employees manager1)"
    by (simp add: manager1_def employee1_def employee2_def)
  from C3_unknown_employee_is_null [of 0 manager1 "''e9''" "(2024, 1)"] a
  have n: "generateMonthlyReport 0 manager1 ''e9'' (2024, 1) = None"
    by (elim conjE) simp
  from C3_unknown_employee_is_null [of 0 manager1 "''e1''" "(2024, 1)"] b
  have s: "\<exists>r. generateMonthlyReport 0 manager1 ''e1'' (2024, 1) = Some r \<and>
        MonthlyReportOf.employeeId r = ''e1'' \<and> month r = (2024, 1)"
    by (elim conjE) simp
  from a n b s show ?thesis by (intro conjI)
qed

text \<open>
  C4. In every report the attendance list is the list of the input's attendance records
  that belong to the employee and lie between the month's bounds; the additional
  earnings are the sum of the custom amounts of all records of that list, present or
  not, a missing amount counting as zero; and the days worked are the number of records
  of that list that are marked present. In particular, one more record of the employee
  inside the month that is not marked present and carries the custom amount \<open>v\<close>
  raises the additional earnings by \<open>v\<close> and leaves the days worked as they were.
\<close>

theorem C4_additional_earnings_and_days:
  assumes "generateMonthlyReport tz c empId mth = Some r"
  shows "attendanceDetails r = filter (\<lambda>a. AttendanceRecord.employeeId a = empId \<and>
            monthStart mth \<le> parseDate (AttendanceRecord.date a) \<and>
            parseDate (AttendanceRecord.date a) \<le> monthEnd tz mth) (attendance c) \<and>
         additionalEarnings r = sum_list (map customAmountOr0 (filter (\<lambda>a.
            AttendanceRecord.employeeId a = empId \<and>
            monthStart mth \<le> parseDate (AttendanceRecord.date a) \<and>
            parseDate (AttendanceRecord.date a) \<le> monthEnd tz mth) (attendance c))) \<and>
         totalDaysWorked r = length (filter present (filter (\<lambda>a.
            AttendanceRecord.employeeId a = empId \<and>
            monthStart mth \<le> parseDate (AttendanceRecord.date a) \<and>
            parseDate (AttendanceRecord.date a) \<le> monthEnd tz mth) (attendance c))) \<and>
         additionalEarnings r = sum_list (map customAmountOr0 (attendanceDetails r)) \<and>
         totalDaysWorked r = length (filter present (attendanceDetails r)) \<and>
         (\<forall>xs ys a v.
            attendance c = xs @ ys \<and> AttendanceRecord.employeeId a = empId \<and>
            monthStart mth \<le> parseDate (AttendanceRecord.date a) \<and>
            parseDate (AttendanceRecord.date a) \<le> monthEnd tz mth \<and>
            \<not> present a \<and> customAmount a = Some v \<longrightarrow>
            (\<exists>r'. generateMonthlyReport tz (c\<lparr>attendance := xs @ a # ys\<rparr>) empId mth = Some r' \<and>
                  a \<in> set (attendanceDetails r') \<and>
                  additionalEarnings r' = additionalEarnings r + v \<and>
                  totalDaysWorked r' = totalDaysWorked r))"
proof -
  let ?P = "\<lambda>a. AttendanceRecord.employeeId a = empId \<and>
        monthStart mth \<le> parseDate (AttendanceRecord.date a) \<and>
        parseDate (AttendanceRecord.date a) \<le> monthEnd tz mth"
  note det = report_fields(1) [OF assms] and days = report_fields(4) [OF assms]
    and sum = report_fields(5) [OF assms]
  from assms have "List.find (\<lambda>e. id_emp e = empId) (employees c) \<noteq> None"
    by (simp flip: report_None [of tz c empId mth])
  then obtain employee where
    found: "List.find (\<lambda>e. id_emp e = empId) (employees c) = Some employee"
    by blast
  have more: "\<exists>r'. generateMonthlyReport tz (c\<lparr>attendance := xs @ a # ys\<rparr>) empId mth = Some r' \<and>
                  a \<in> set (attendanceDetails r') \<and>
                  additionalEarnings r' = additionalEarnings r + v \<and>
                  totalDaysWorked r' = totalDaysWorked r"
    if split: "attendance c = xs @ ys" and a: "?P a" and np: "\<not> present a"
      and v: "customAmount a = Some v" for xs ys a v
  proof -
    let ?c' = "c\<lparr>attendance := xs @ a # ys\<rparr>"
    from found have "List.find (\<lambda>e. id_emp e = empId) (employees ?c') = Some employee"
      by simp
    from report_of_found [OF this] obtain r' where
      r': "generateMonthlyReport tz ?c' empId mth = Some r'" by blast
    note det' = report_fields(1) [OF r'] and days' = report_fields(4) [OF r']
      and sum' = report_fields(5) [OF r']
    from det' a have d1: "attendanceDetails r' = filter ?P xs @ a # filter ?P ys"
      by simp
    from det split have d0: "attendanceDetails r = filter ?P xs @ filter ?P ys"
      by simp
    from v have av: "customAmountOr0 a = v"
      by (simp add: customAmountOr0_def)
    have "additionalEarnings r' = additionalEarnings r + v"
      by (simp add: sum' sum d1 d0 av)
    moreover have "totalDaysWorked r' = totalDaysWorked r"
      by (simp add: days' days d1 d0 np)
    moreover have "a \<in> set (attendanceDetails r')"
      by (simp add: d1)
    ultimately show ?thesis using r' by blast
  qed
  have sumI: "additionalEarnings r = sum_list (map customAmountOr0 (filter ?P (attendance c)))"
    using sum unfolding det .
  have daysI: "totalDaysWorked r = length (filter present (filter ?P (attendance c)))"
    using days unfolding det .
  from det sumI daysI sum days more show ?thesis by blast
qed

theorem C4_additional_earnings_and_days_witness:
  "generateMonthlyReport 0 manager1 ''e1'' (2024, 1) = Some report1 \<and>
   attendanceDetails report1 = filter (\<lambda>a. AttendanceRecord.employeeId a = ''e1'' \<and>
      monthStart (2024, 1) \<le> parseDate (AttendanceRecord.date a) \<and>
      parseDate (AttendanceRecord.date a) \<le> monthEnd 0 (2024, 1)) (attendance manager1) \<and>
   attendanceDetails report1 =
     [att (2024, 1, 1) True None None, att (2024, 1, 10) True None (Some 50),
      att (2024, 1, 15) False (Some ''ot'') (Some 300),
      att (2024, 1, 31) True (Some ''half-day'') (Some 0)] \<and>
   additionalEarnings report1 = 350 \<and> totalDaysWorked report1 = 3 \<and>
   \<not> present overtime20 \<and> customAmount overtime20 = Some 300 \<and>
   (\<exists>r'. generateMonthlyReport 0 manager1_overtime ''e1'' (2024, 1) = Some r' \<and>
         overtime20 \<in> set (attendanceDetails r') \<and>
         additionalEarnings r' = 650 \<and> totalDaysWorked r' = 3)"
proof -
  have h: "attendance manager1 = attendance1 @ [] \<and>
           AttendanceRecord.employeeId overtime20 = ''e1'' \<and>
           monthStart (2024, 1) \<le> parseDate (AttendanceRecord.date overtime20) \<and>
           parseDate (AttendanceRecord.date overtime20) \<le> monthEnd 0 (2024, 1) \<and>
           \<not> present overtime20 \<and> customAmount overtime20 = Some 300"
    using in_month_bounds_overtime20 by (simp add: manager1_def overtime20_def att_def)
  have n: "additionalEarnings report1 = 350" "totalDaysWorked report1 = 3"
    "attendanceDetails report1 =
     [att (2024, 1, 1) True None None, att (2024, 1, 10) True None (Some 50),
      att (2024, 1, 15) False (Some ''ot'') (Some 300),
      att (2024, 1, 31) True (Some ''half-day'') (Some 0)]"
    by (simp_all add: report1_def)
  note c4 = C4_additional_earnings_and_days [OF report1_eq]
  from c4 have pin: "attendanceDetails report1 =
      filter (\<lambda>a. AttendanceRecord.employeeId a = ''e1'' \<and>
        monthStart (2024, 1) \<le> parseDate (AttendanceRecord.date a) \<and>
        parseDate (AttendanceRecord.date a) \<le> monthEnd 0 (2024, 1)) (attendance manager1)"
    by (elim conjE)
  from c4 h
  have "\<exists>r'. generateMonthlyReport 0 (manager1\<lparr>attendance := attendance1 @ [overtime20]\<rparr>)
          ''e1'' (2024, 1) = Some r' \<and>
         overtime20 \<in> set (attendanceDetails r') \<and>
         additionalEarnings r' = additionalEarnings report1 + 300 \<and>
         totalDaysWorked r' = totalDaysWorked report1"
    by blast
  with n h have more: "\<exists>r'. generateMonthlyReport 0 manager1_overtime ''e1'' (2024, 1) = Some r' \<and>
         overtime20 \<in> set (attendanceDetails r') \<and>
         additionalEarnings r' = 650 \<and> totalDaysWorked r' = 3"
    by (simp add: manager1_overtime_def)
  from report1_eq pin n(3) n(1) n(2) h more show ?thesis
    by (intro conjI) (elim conjE, assumption)+
qed

text \<open>
  C6. In every report the overtime, half-day and custom-payment lists have no record in
  common, each holds only records of the month's attendance list, and a record of the
  attendance list that carries no category tag is in none of the three.
\<close>

theorem C6_category_lists:
  assumes "generateMonthlyReport tz c empId mth = Some r"
  shows "set (otRecords r) \<inter> set (halfDayRecords r) = {} \<and>
         set (otRecords r) \<inter> set (customPaymentRecords r) = {} \<and>
         set (halfDayRecords r) \<inter> set (customPaymentRecords r) = {} \<and>
         set (otRecords r) \<subseteq> set (attendanceDetails r) \<and>
         set (halfDayRecords r) \<subseteq> set (attendanceDetails r) \<and>
         set (customPaymentRecords r) \<subseteq> set (attendanceDetails r) \<and>
         (\<forall>a \<in> set (attendanceDetails r). customType a = None \<longrightarrow>
            a \<notin> set (otRecords r) \<and> a \<notin> set (halfDayRecords r) \<and>
            a \<notin> set (customPaymentRecords r))"
  unfolding report_fields(10,11,12) [OF assms] by auto

theorem C6_category_lists_witness:
  "generateMonthlyReport 0 manager1 ''e1'' (2024, 1) = Some report1 \<and>
   set (otRecords report1) \<inter> set (halfDayRecords report1) = {} \<and>
   set (otRecords report1) \<subseteq> set (attendanceDetails report1) \<and>
   att (2024, 1, 10) True None (Some 50) \<in> set (attendanceDetails report1) \<and>
   customType (att (2024, 1, 10) True None (Some 50)) = None \<and>
   att (2024, 1, 10) True None (Some 50) \<notin> set (otRecords report1) \<and>
   att (2024, 1, 10) True None (Some 50) \<notin> set (halfDayRecords report1) \<and>
   att (2024, 1, 10) True None (Some 50) \<notin> set (customPaymentRecords report1)"
proof -
  have a: "att (2024, 1, 10) True None (Some 50) \<in> set (attendanceDetails report1)"
    by (simp add: report1_def)
  have b: "customType (att (2024, 1, 10) True None (Some 50)) = None"
    by (simp add: att_def)
  from C6_category_lists [OF report1_eq] a b
  have "set (otRecords report1) \<inter> set (halfDayRecords report1) = {} \<and>
        set (otRecords report1) \<subseteq> set (attendanceDetails report1) \<and>
        att (2024, 1, 10) True None (Some 50) \<notin> set (otRecords report1) \<and>
        att (2024, 1, 10) True None (Some 50) \<notin> set (halfDayRecords report1) \<and>
        att (2024, 1, 10) True None (Some 50) \<notin> set (customPaymentRecords report1)"
    by (elim conjE) (intro conjI, simp_all)
  with a b report1_eq show ?thesis by (elim conjE) (intro conjI)
qed

subsection \<open>The custom amounts of the categories\<close>

text \<open>
  On whole numbers below \<open>2 ^ 53\<close> the binary64 addition is exact, so the two binary64
  sums of records with whole-number amounts are the integer sums of the model.
\<close>

lemma add64_whole: "\<bar>a + b\<bar> < 2 ^ 53 \<Longrightarrow> add64 (a, 0) (b, 0) = (a + b, 0)"
  by (simp add: add64_def addExact_def round53_def)

lemma sum_filter_le:
  assumes "\<forall>a \<in> set xs. (0::int) \<le> f a"
  shows "sum_list (map f (filter P xs)) \<le> sum_list (map f xs)"
  using assms by (induction xs) (auto intro: add_increasing)

lemma sum_nonneg:
  assumes "\<forall>a \<in> set xs. (0::int) \<le> f a"
  shows "0 \<le> sum_list (map f xs)"
  using assms by (induction xs) simp_all

lemma customAmountTotal64_whole_from:
  assumes "\<forall>a \<in> set rs. 0 \<le> customAmountOr0 a" and "0 \<le> k"
    and "k + sum_list (map customAmountOr0 rs) < 2 ^ 53"
  shows "foldl (\<lambda>sum row. add64 sum
              (case snd row of None \<Rightarrow> (0, 0) | Some v \<Rightarrow> if fst v \<noteq> 0 then v else (0, 0)))
           (k, 0) (rows64 rs) = (k + sum_list (map customAmountOr0 rs), 0)"
  using assms
proof (induction rs arbitrary: k)
  case Nil
  show ?case by (simp add: rows64_def)
next
  case (Cons a rs)
  let ?v = "customAmountOr0 a"
  from Cons.prems have v: "0 \<le> ?v" and rest: "\<forall>a \<in> set rs. 0 \<le> customAmountOr0 a"
    by simp_all
  from sum_nonneg [OF rest] have s: "0 \<le> sum_list (map customAmountOr0 rs)" .
  from Cons.prems(3) have b: "k + ?v + sum_list (map customAmountOr0 rs) < 2 ^ 53"
    by (simp add: add.assoc)
  from Cons.prems(2) v s b have small: "\<bar>k + ?v\<bar> < 2 ^ 53" "\<bar>k + 0\<bar> < 2 ^ 53"
    by linarith+
  from Cons.prems(2) v have k': "0 \<le> k + ?v" by simp
  have step: "add64 (k, 0)
      (case snd (customType a, map_option (\<lambda>v. (v, 0)) (customAmount a)) of
         None \<Rightarrow> (0, 0) | Some v \<Rightarrow> if fst v \<noteq> 0 then v else (0, 0)) = (k + ?v, 0)"
  proof (cases "customAmount a")
    case None
    then have "?v = 0" by (simp add: customAmountOr0_def)
    with add64_whole [OF small(2)] None show ?thesis by simp
  next
    case (Some x)
    show ?thesis
    proof (cases "x = 0")
      case True
      with Some have "?v = 0" by (simp add: customAmountOr0_def)
      with add64_whole [OF small(2)] Some True show ?thesis by simp
    next
      case False
      with Some have "?v = x" by (simp add: customAmountOr0_def)
      with add64_whole [OF small(1)] Some False show ?thesis by simp
    qed
  qed
  have "foldl (\<lambda>sum row. add64 sum
              (case snd row of None \<Rightarrow> (0, 0) | Some v \<Rightarrow> if fst v \<noteq> 0 then v else (0, 0)))
           (k, 0) (rows64 (a # rs)) =
        foldl (\<lambda>sum row. add64 sum
              (case snd row of None \<Rightarrow> (0, 0) | Some v \<Rightarrow> if fst v \<noteq> 0 then v else (0, 0)))
           (k + ?v, 0) (rows64 rs)"
    using step by (simp add: rows64_def)
  also have "\<dots> = (k + ?v + sum_list (map customAmountOr0 rs), 0)"
    by (rule Cons.IH [OF rest k' b])
  finally show ?case by (simp add: add.assoc)
qed

lemma additionalEarnings64_whole_from:
  assumes "\<forall>a \<in> set rs. 0 \<le> customAmountOr0 a" and "0 \<le> k"
    and "k + sum_list (map customAmountOr0 rs) < 2 ^ 53"
  shows "additionalEarnings64 (k, 0) (rows64 rs) = (k + sum_list (map customAmountOr0 rs), 0)"
  using assms
proof (induction rs arbitrary: k)
  case Nil
  show ?case by (simp add: rows64_def)
next
  case (Cons a rs)
  let ?v = "customAmountOr0 a"
  from Cons.prems have v: "0 \<le> ?v" and rest: "\<forall>a \<in> set rs. 0 \<le> customAmountOr0 a"
    by simp_all
  from sum_nonneg [OF rest] have s: "0 \<le> sum_list (map customAmountOr0 rs)" .
  from Cons.prems(3) have b: "k + ?v + sum_list (map customAmountOr0 rs) < 2 ^ 53"
    by (simp add: add.assoc)
  from Cons.prems(2) v s b have small: "\<bar>k + ?v\<bar> < 2 ^ 53"
    by linarith
  from Cons.prems(2) v have k': "0 \<le> k + ?v" by simp
  have step: "(case map_option (\<lambda>v. (v, 0)) (customAmount a) of
         None \<Rightarrow> (k, 0) | Some v \<Rightarrow> if fst v \<noteq> 0 then add64 (k, 0) v else (k, 0)) = (k + ?v, 0)"
  proof (cases "customAmount a")
    case None
    then have "?v = 0" by (simp add: customAmountOr0_def)
    with None show ?thesis by simp
  next
    case (Some x)
    show ?thesis
    proof (cases "x = 0")
      case True
      with Some have "?v = 0" by (simp add: customAmountOr0_def)
      with Some True show ?thesis by simp
    next
      case False
      with Some have "?v = x" by (simp add: customAmountOr0_def)
      with add64_whole [OF small] Some False show ?thesis by simp
    qed
  qed
  have "additionalEarnings64 (k, 0) (rows64 (a # rs)) =
        additionalEarnings64 (k + ?v, 0) (rows64 rs)"
    using step by (simp add: rows64_def)
  also have "\<dots> = (k + ?v + sum_list (map customAmountOr0 rs), 0)"
    by (rule Cons.IH [OF rest k' b])
  finally show ?case by (simp add: add.assoc)
qed

lemma categoryRows_rows64:
  "categoryRows tag (rows64 rs) = rows64 (filter (\<lambda>record. customType record = Some tag) rs)"
  by (induction rs) (simp_all add: categoryRows_def rows64_def)

lemma category_total64_whole:
  assumes nonneg: "\<forall>a \<in> set rs. 0 \<le> customAmountOr0 a"
    and small: "sum_list (map customAmountOr0 rs) < 2 ^ 53"
  shows "customAmountTotal64 (categoryRows tag (rows64 rs)) =
         (customAmountTotal (filter (\<lambda>record. customType record = Some tag) rs), 0)"
proof -
  let ?fs = "filter (\<lambda>record. customType record = Some tag) rs"
  from nonneg have n: "\<forall>a \<in> set ?fs. 0 \<le> customAmountOr0 a" by simp
  have "sum_list (map customAmountOr0 ?fs) \<le> sum_list (map customAmountOr0 rs)"
    by (rule sum_filter_le [OF nonneg])
  with small have s: "0 + sum_list (map customAmountOr0 ?fs) < 2 ^ 53"
    by linarith
  from customAmountTotal64_whole_from [OF n order_refl s]
  show ?thesis
    by (simp add: customAmountTotal64_def categoryRows_rows64 customAmountTotal_sum)
qed

text \<open>The binary64 numbers of the example are the ones nearest to 100.1, 200.2 and 50.05.\<close>

lemma example_amounts_nearest:
  "2 ^ 52 \<le> fst amount_100_1 \<and> fst amount_100_1 < 2 ^ 53 \<and>
   \<bar>10 * fst amount_100_1 - 1001 * 2 ^ 46\<bar> * 2 \<le> 10"
  "2 ^ 52 \<le> fst amount_200_2 \<and> fst amount_200_2 < 2 ^ 53 \<and>
   \<bar>10 * fst amount_200_2 - 2002 * 2 ^ 45\<bar> * 2 \<le> 10"
  "2 ^ 52 \<le> fst amount_50_05 \<and> fst amount_50_05 < 2 ^ 53 \<and>
   \<bar>100 * fst amount_50_05 - 5005 * 2 ^ 47\<bar> * 2 \<le> 100"
  by (simp_all add: amount_100_1_def amount_200_2_def amount_50_05_def)

text \<open>
  C10, as the claim states it, fails in the arithmetic of the code. A month has one
  overtime record with the custom amount 100.1 and two half-day records with 200.2 and
  50.05, all positive. The running total of the three is 350.34999999999997, the
  binary64 number \<open>6163422380661145 * 2 ^ - 44\<close>; the overtime total is 100.1 and the
  half-day total is 250.25, and their sum, exact or rounded to binary64 (350.35, which
  is \<open>6163422380661146 * 2 ^ - 44\<close>), is larger than the running total.
\<close>

theorem C10_binary64_counterexample:
  "less64 (0, 0) amount_100_1 \<and> less64 (0, 0) amount_200_2 \<and> less64 (0, 0) amount_50_05 \<and>
   additionalEarnings64 (0, 0) rows1 = (6163422380661145, - 44) \<and>
   customAmountTotal64 (categoryRows ''ot'' rows1) = amount_100_1 \<and>
   customAmountTotal64 (categoryRows ''half-day'' rows1) = (8804889115230208, - 45) \<and>
   customAmountTotal64 (categoryRows ''custom'' rows1) = (0, 0) \<and>
   add64 (add64 (customAmountTotal64 (categoryRows ''ot'' rows1))
            (customAmountTotal64 (categoryRows ''half-day'' rows1)))
     (customAmountTotal64 (categoryRows ''custom'' rows1)) = (6163422380661146, - 44) \<and>
   less64 (additionalEarnings64 (0, 0) rows1)
     (add64 (add64 (customAmountTotal64 (categoryRows ''ot'' rows1))
              (customAmountTotal64 (categoryRows ''half-day'' rows1)))
        (customAmountTotal64 (categoryRows ''custom'' rows1))) \<and>
   less64 (additionalEarnings64 (0, 0) rows1)
     (addExact (addExact (customAmountTotal64 (categoryRows ''ot'' rows1))
                 (customAmountTotal64 (categoryRows ''half-day'' rows1)))
        (customAmountTotal64 (categoryRows ''custom'' rows1)))"
  by code_simp

text \<open>
  C10, amended. In exact arithmetic, when no attendance record of the month carries a
  negative custom amount, the custom amounts of the overtime, half-day and
  custom-payment lists together are at most the additional earnings. This is what the
  code computes whenever the custom amounts are whole numbers and the additional
  earnings are below \<open>2 ^ 53\<close>: then the running total and the three category totals in
  binary64 are exactly the integer sums. And there is such an input where the category
  totals are strictly less, because a record with a custom amount and no category tag
  counts towards the additional earnings and is in no category list.
\<close>

theorem C10_category_totals_below_additional:
  "(generateMonthlyReport tz c empId mth = Some r \<longrightarrow>
      (\<forall>a \<in> set (attendanceDetails r). 0 \<le> customAmountOr0 a) \<longrightarrow>
      customAmountTotal (otRecords r) + customAmountTotal (halfDayRecords r) +
        customAmountTotal (customPaymentRecords r) \<le> additionalEarnings r \<and>
      (additionalEarnings r < 2 ^ 53 \<longrightarrow>
         additionalEarnings64 (0, 0) (rows64 (attendanceDetails r)) = (additionalEarnings r, 0) \<and>
         customAmountTotal64 (categoryRows ''ot'' (rows64 (attendanceDetails r))) =
           (customAmountTotal (otRecords r), 0) \<and>
         customAmountTotal64 (categoryRows ''half-day'' (rows64 (attendanceDetails r))) =
           (customAmountTotal (halfDayRecords r), 0) \<and>
         customAmountTotal64 (categoryRows ''custom'' (rows64 (attendanceDetails r))) =
           (customAmountTotal (customPaymentRecords r), 0))) \<and>
   (\<exists>tz' c' empId' mth' r'.
      generateMonthlyReport tz' c' empId' mth' = Some r' \<and>
      (\<forall>a \<in> set (attendanceDetails r'). 0 \<le> customAmountOr0 a) \<and>
      additionalEarnings r' < 2 ^ 53 \<and>
      customAmountTotal (otRecords r') + customAmountTotal (halfDayRecords r') +
        customAmountTotal (customPaymentRecords r') < additionalEarnings r')"
proof -
  have le: "customAmountTotal (otRecords r) + customAmountTotal (halfDayRecords r) +
        customAmountTotal (customPaymentRecords r) \<le> additionalEarnings r"
    if r: "generateMonthlyReport tz c empId mth = Some r"
      and nonneg: "\<forall>a \<in> set (attendanceDetails r). 0 \<le> customAmountOr0 a"
  proof -
    have "sum_list (map customAmountOr0
             (filter (\<lambda>record. customType record = Some ''ot'') (attendanceDetails r))) +
          sum_list (map customAmountOr0
             (filter (\<lambda>record. customType record = Some ''half-day'') (attendanceDetails r))) +
          sum_list (map customAmountOr0
             (filter (\<lambda>record. customType record = Some ''custom'') (attendanceDetails r)))
          \<le> sum_list (map customAmountOr0 (attendanceDetails r))"
      by (rule three_filters_le [OF nonneg]) simp_all
    then show ?thesis
      unfolding customAmountTotal_sum report_fields(5) [OF r]
      by (simp flip: report_fields(10,11,12) [OF r])
  qed
  have f64: "additionalEarnings64 (0, 0) (rows64 (attendanceDetails r)) = (additionalEarnings r, 0) \<and>
         customAmountTotal64 (categoryRows ''ot'' (rows64 (attendanceDetails r))) =
           (customAmountTotal (otRecords r), 0) \<and>
         customAmountTotal64 (categoryRows ''half-day'' (rows64 (attendanceDetails r))) =
           (customAmountTotal (halfDayRecords r), 0) \<and>
         customAmountTotal64 (categoryRows ''custom'' (rows64 (attendanceDetails r))) =
           (customAmountTotal (customPaymentRecords r), 0)"
    if r: "generateMonthlyReport tz c empId mth = Some r"
      and nonneg: "\<forall>a \<in> set (attendanceDetails r). 0 \<le> customAmountOr0 a"
      and small: "additionalEarnings r < 2 ^ 53"
  proof -
    from small have s: "sum_list (map customAmountOr0 (attendanceDetails r)) < 2 ^ 53"
      unfolding report_fields(5) [OF r] .
    then have s0: "0 + sum_list (map customAmountOr0 (attendanceDetails r)) < 2 ^ 53"
      by simp
    have "additionalEarnings64 (0, 0) (rows64 (attendanceDetails r)) =
        (0 + sum_list (map customAmountOr0 (attendanceDetails r)), 0)"
      by (rule additionalEarnings64_whole_from [OF nonneg order_refl s0])
    then have ae: "additionalEarnings64 (0, 0) (rows64 (attendanceDetails r)) =
        (additionalEarnings r, 0)"
      by (simp add: report_fields(5) [OF r])
    note cat = category_total64_whole [OF nonneg s]
    from ae cat [of "''ot''"] cat [of "''half-day''"] cat [of "''custom''"]
    show ?thesis
      unfolding report_fields(10,11,12) [OF r] by (intro conjI)
  qed
  have nn: "\<forall>a \<in> set (attendanceDetails report1). 0 \<le> customAmountOr0 a"
    by (simp add: report1_def att_def customAmountOr0_def)
  have sm: "additionalEarnings report1 < 2 ^ 53"
    by (simp add: report1_def)
  have lt: "customAmountTotal (otRecords report1) + customAmountTotal (halfDayRecords report1) +
        customAmountTotal (customPaymentRecords report1) < additionalEarnings report1"
    by (simp add: report1_def att_def customAmountTotal_def customAmountOr0_def)
  from report1_eq nn sm lt have ex: "\<exists>tz' c' empId' mth' r'.
      generateMonthlyReport tz' c' empId' mth' = Some r' \<and>
      (\<forall>a \<in> set (attendanceDetails r'). 0 \<le> customAmountOr0 a) \<and>
      additionalEarnings r' < 2 ^ 53 \<and>
      customAmountTotal (otRecords r') + customAmountTotal (halfDayRecords r') +
        customAmountTotal (customPaymentRecords r') < additionalEarnings r'"
    by (intro exI conjI)
  have gen: "generateMonthlyReport tz c empId mth = Some r \<longrightarrow>
      (\<forall>a \<in> set (attendanceDetails r). 0 \<le> customAmountOr0 a) \<longrightarrow>
      customAmountTotal (otRecords r) + customAmountTotal (halfDayRecords r) +
        customAmountTotal (customPaymentRecords r) \<le> additionalEarnings r \<and>
      (additionalEarnings r < 2 ^ 53 \<longrightarrow>
         additionalEarnings64 (0, 0) (rows64 (attendanceDetails r)) = (additionalEarnings r, 0) \<and>
         customAmountTotal64 (categoryRows ''ot'' (rows64 (attendanceDetails r))) =
           (customAmountTotal (otRecords r), 0) \<and>
         customAmountTotal64 (categoryRows ''half-day'' (rows64 (attendanceDetails r))) =
           (customAmountTotal (halfDayRecords r), 0) \<and>
         customAmountTotal64 (categoryRows ''custom'' (rows64 (attendanceDetails r))) =
           (customAmountTotal (customPaymentRecords r), 0))"
  proof (rule impI, rule impI, rule conjI)
    assume r: "generateMonthlyReport tz c empId mth = Some r"
      and nonneg: "\<forall>a \<in> set (attendanceDetails r). 0 \<le> customAmountOr0 a"
    show "customAmountTotal (otRecords r) + customAmountTotal (halfDayRecords r) +
        customAmountTotal (customPaymentRecords r) \<le> additionalEarnings r"
      by (rule le [OF r nonneg])
    show "additionalEarnings r < 2 ^ 53 \<longrightarrow>
         additionalEarnings64 (0, 0) (rows64 (attendanceDetails r)) = (additionalEarnings r, 0) \<and>
         customAmountTotal64 (categoryRows ''ot'' (rows64 (attendanceDetails r))) =
           (customAmountTotal (otRecords r), 0) \<and>
         customAmountTotal64 (categoryRows ''half-day'' (rows64 (attendanceDetails r))) =
           (customAmountTotal (halfDayRecords r), 0) \<and>
         customAmountTotal64 (categoryRows ''custom'' (rows64 (attendanceDetails r))) =
           (customAmountTotal (customPaymentRecords r), 0)"
      by (rule impI) (rule f64 [OF r nonneg])
  qed
  from gen ex show ?thesis by (rule conjI)
qed

theorem C10_category_totals_below_additional_witness:
  "generateMonthlyReport 0 manager1 ''e1'' (2024, 1) = Some report1 \<and>
   map customAmountOr0 (attendanceDetails report1) = [0, 50, 300, 0] \<and>
   additionalEarnings report1 < 2 ^ 53 \<and>
   customAmountTotal (otRecords report1) + customAmountTotal (halfDayRecords report1) +
     customAmountTotal (customPaymentRecords report1) \<le> additionalEarnings report1 \<and>
   customAmountTotal (otRecords report1) + customAmountTotal (halfDayRecords report1) +
     customAmountTotal (customPaymentRecords report1) = 300 \<and>
   additionalEarnings report1 = 350 \<and>
   additionalEarnings64 (0, 0) (rows64 (attendanceDetails report1)) = (350, 0) \<and>
   customAmountTotal64 (categoryRows ''ot'' (rows64 (attendanceDetails report1))) = (300, 0) \<and>
   customAmountTotal64 (categoryRows ''half-day'' (rows64 (attendanceDetails report1))) = (0, 0) \<and>
   customAmountTotal64 (categoryRows ''custom'' (rows64 (attendanceDetails report1))) = (0, 0)"
proof -
  have m: "map customAmountOr0 (attendanceDetails report1) = [0, 50, 300, 0]"
    by (simp add: report1_def att_def customAmountOr0_def)
  have nn: "\<forall>a \<in> set (attendanceDetails report1). 0 \<le> customAmountOr0 a"
    by (simp add: report1_def att_def customAmountOr0_def)
  have sm: "additionalEarnings report1 < 2 ^ 53"
    by (simp add: report1_def)
  have v: "customAmountTotal (otRecords report1) + customAmountTotal (halfDayRecords report1) +
     customAmountTotal (customPaymentRecords report1) = 300" "additionalEarnings report1 = 350"
    "customAmountTotal (otRecords report1) = 300" "customAmountTotal (halfDayRecords report1) = 0"
    "customAmountTotal (customPaymentRecords report1) = 0"
    by (simp_all add: report1_def att_def customAmountTotal_def customAmountOr0_def)
  note c10 = C10_category_totals_below_additional [of 0 manager1 "''e1''" "(2024, 1)" report1,
      THEN conjunct1, THEN mp, OF report1_eq, THEN mp, OF nn]
  from c10 have le: "customAmountTotal (otRecords report1) +
     customAmountTotal (halfDayRecords report1) +
     customAmountTotal (customPaymentRecords report1) \<le> additionalEarnings report1"
    by (rule conjunct1)
  note f0 = c10 [THEN conjunct2, THEN mp, OF sm, unfolded v]
  note f = f0 [THEN conjunct1] f0 [THEN conjunct2, THEN conjunct1]
    f0 [THEN conjunct2, THEN conjunct2, THEN conjunct1]
    f0 [THEN conjunct2, THEN conjunct2, THEN conjunct2]
  from report1_eq m sm le v(1) v(2) f show ?thesis by (intro conjI)
qed

subsection \<open>The month range\<close>

text \<open>The calendar functions agree on the first day of every month.\<close>

lemma int_div_eqI:
  fixes a b q :: int
  assumes "b * q \<le> a" and "a < b * q + b" and "0 < b"
  shows "a div b = q"
proof -
  have "a = b * q + (a - b * q)" by simp
  moreover have "0 \<le> a - b * q" using assms(1) by simp
  moreover have "a - b * q < b" using assms(2) by simp
  ultimately show ?thesis
    by (metis int_div_pos_eq)
qed

lemma yoe_roundtrip:
  fixes yoe doy :: int
  assumes "0 \<le> yoe" "yoe \<le> 399" "0 \<le> doy" "doy \<le> 337"
  defines "doe \<equiv> yoe * 365 + yoe div 4 - yoe div 100 + doy"
  shows "(doe - doe div 1460 + doe div 36524 - doe div 146096) div 365 = yoe"
    and "0 \<le> doe" and "doe < 146097"
proof -
  define q where "q = yoe div 4"
  define c where "c = yoe div 100"
  define e where "e = doe div 1460"
  have q: "4 * q \<le> yoe" "yoe \<le> 4 * q + 3"
    unfolding q_def by presburger+
  have c: "100 * c \<le> yoe" "yoe \<le> 100 * c + 99"
    unfolding c_def by presburger+
  have e: "1460 * e \<le> doe" "doe < 1460 * e + 1460"
    unfolding e_def by presburger+
  have doe: "doe = 365 * yoe + q - c + doy"
    by (simp add: doe_def q_def c_def)
  from q c assms have qc: "25 * c \<le> q" "q \<le> 25 * c + 24" "0 \<le> c" "c \<le> 3"
    by linarith+
  from doe q c qc assms have b1: "36524 * c \<le> doe" "doe < 36524 * c + 36524"
    by linarith+
  then have d1: "doe div 36524 = c"
    by (intro int_div_eqI) simp_all
  from b1 qc have b2: "0 \<le> doe" "doe < 146096"
    by linarith+
  then have d2: "doe div 146096 = 0"
    by simp
  from e doe q c qc assms have e1: "q \<le> e"
    by linarith
  from e doe q c qc assms have e2: "e \<le> q + doy"
    by linarith
  have "(doe - e + c - 0) div 365 = yoe"
  proof (rule int_div_eqI)
    show "365 * yoe \<le> doe - e + c - 0" using e2 doe by linarith
    show "doe - e + c - 0 < 365 * yoe + 365" using e1 doe assms by linarith
  qed simp
  then show "(doe - doe div 1460 + doe div 36524 - doe div 146096) div 365 = yoe"
    by (simp add: d1 d2 e_def)
  from b2 show "0 \<le> doe" "doe < 146097" by linarith+
qed


lemma era_roundtrip:
  fixes era doe :: int
  assumes "0 \<le> doe" "doe < 146097"
  shows "(era * 146097 + doe) div 146097 = era"
  using assms by (intro int_div_eqI) simp_all

lemma first_of_month_doy:
  fixes m :: int
  assumes "1 \<le> m" "m \<le> 12"
  defines "mp \<equiv> (if m > 2 then m - 3 else m + 9)"
  shows "0 \<le> (153 * mp + 2) div 5" "(153 * mp + 2) div 5 \<le> 337"
    "(5 * ((153 * mp + 2) div 5) + 2) div 153 = mp" "0 \<le> mp" "mp \<le> 11"
proof -
  from assms(1,2) have "m = 1 \<or> m = 2 \<or> m = 3 \<or> m = 4 \<or> m = 5 \<or> m = 6 \<or>
    m = 7 \<or> m = 8 \<or> m = 9 \<or> m = 10 \<or> m = 11 \<or> m = 12"
    by presburger
  then have "0 \<le> (153 * mp + 2) div 5 \<and> (153 * mp + 2) div 5 \<le> 337 \<and>
    (5 * ((153 * mp + 2) div 5) + 2) div 153 = mp \<and> 0 \<le> mp \<and> mp \<le> 11"
    by (elim disjE) (simp_all add: mp_def)
  then show "0 \<le> (153 * mp + 2) div 5" "(153 * mp + 2) div 5 \<le> 337"
    "(5 * ((153 * mp + 2) div 5) + 2) div 153 = mp" "0 \<le> mp" "mp \<le> 11"
    by simp_all
qed

lemma days_from_civil_parts:
  "days_from_civil y m d =
     (if m \<le> 2 then y - 1 else y) div 400 * 146097 +
     (((if m \<le> 2 then y - 1 else y) - (if m \<le> 2 then y - 1 else y) div 400 * 400) * 365 +
      ((if m \<le> 2 then y - 1 else y) - (if m \<le> 2 then y - 1 else y) div 400 * 400) div 4 -
      ((if m \<le> 2 then y - 1 else y) - (if m \<le> 2 then y - 1 else y) div 400 * 400) div 100 +
      ((153 * (if m > 2 then m - 3 else m + 9) + 2) div 5 + d - 1)) - 719468"
  unfolding days_from_civil_def Let_def by (rule refl)

lemma civil_from_days_parts:
  assumes "0 \<le> doe" "doe < 146097"
    and "(doe - doe div 1460 + doe div 36524 - doe div 146096) div 365 = yoe"
    and "(5 * (doe - (365 * yoe + yoe div 4 - yoe div 100)) + 2) div 153 = mp"
  shows "civil_from_days (era * 146097 + doe - 719468) =
     ((if (if mp < 10 then mp + 3 else mp - 9) \<le> 2 then yoe + era * 400 + 1
       else yoe + era * 400),
      (if mp < 10 then mp + 3 else mp - 9),
      doe - (365 * yoe + yoe div 4 - yoe div 100) - (153 * mp + 2) div 5 + 1)"
proof -
  have a: "era * 146097 + doe - 719468 + 719468 = era * 146097 + doe"
    by simp
  have b: "era * 146097 + doe - era * 146097 = doe"
    by simp
  show ?thesis
    unfolding civil_from_days_def Let_def a era_roundtrip [OF assms(1,2)] b assms(3) assms(4)
    by (rule refl)
qed

text \<open>The first day of a month, turned into a day number and back, is itself.\<close>

lemma civil_from_days_first_of_month:
  assumes "1 \<le> m" "m \<le> 12"
  shows "civil_from_days (days_from_civil y m 1) = (y, m, 1)"
proof -
  define y' where "y' = (if m \<le> 2 then y - 1 else y)"
  define era where "era = y' div 400"
  define yoe where "yoe = y' - era * 400"
  define mp where "mp = (if m > 2 then m - 3 else m + 9)"
  define doy where "doy = (153 * mp + 2) div 5"
  define doe where "doe = yoe * 365 + yoe div 4 - yoe div 100 + doy"
  have yoe: "0 \<le> yoe" "yoe \<le> 399"
    unfolding yoe_def era_def by presburger+
  note mo = first_of_month_doy [OF assms, folded mp_def, folded doy_def]
  note rt = yoe_roundtrip [OF yoe mo(1,2), folded doe_def]
  have "days_from_civil y m 1 = era * 146097 +
      (yoe * 365 + yoe div 4 - yoe div 100 + (doy + 1 - 1)) - 719468"
    unfolding days_from_civil_parts [of y m 1] doy_def mp_def yoe_def era_def y'_def
    by (rule refl)
  then have z: "days_from_civil y m 1 = era * 146097 + doe - 719468"
    by (simp add: doe_def)
  have doy': "doe - (365 * yoe + yoe div 4 - yoe div 100) = doy"
    by (simp add: doe_def)
  have mp': "(5 * (doe - (365 * yoe + yoe div 4 - yoe div 100)) + 2) div 153 = mp"
    unfolding doy' by (rule mo(3))
  have m': "(if mp < 10 then mp + 3 else mp - 9) = m"
    using assms by (auto simp: mp_def)
  have yr: "yoe + era * 400 = y'"
    by (simp add: yoe_def)
  have yr': "(if m \<le> 2 then y' + 1 else y') = y"
    by (simp add: y'_def)
  have d': "doy - (153 * mp + 2) div 5 + 1 = 1"
    by (simp add: doy_def)
  show ?thesis
    unfolding z civil_from_days_parts [OF rt(2,3) rt(1) mp'] doy' m' yr yr' d'
    by (rule refl)
qed

text \<open>
  On a host at UTC or east of it by less than a day, the local year and month of
  \<open>monthStart\<close> are those of the token, and \<open>monthEnd\<close> is local midnight at the start of
  the day before the first day of the next month.
\<close>

lemma local_day_of_monthStart:
  assumes "0 \<le> tz" "tz < 1440"
  shows "(monthStart (y, m) + tz * msPerMinute) div msPerDay = days_from_civil y m 1"
proof -
  have "(days_from_civil y m 1 * 86400000 + tz * 60000) div 86400000 = days_from_civil y m 1"
    using assms by (intro int_div_eqI) simp_all
  then show ?thesis
    by (simp add: monthStart_def parseDate_def msPerMinute_def msPerDay_def)
qed

lemma monthEnd_east:
  assumes "0 \<le> tz" "tz < 1440" "1 \<le> m" "m \<le> 12" "y < 0 \<or> 99 < y"
  shows "monthEnd tz (y, m) =
     (days_from_civil (if m = 12 then y + 1 else y) (if m = 12 then 1 else m + 1) 1 - 1) *
       msPerDay - tz * msPerMinute"
proof -
  note day = local_day_of_monthStart [OF assms(1,2), of y m]
  note civ = civil_from_days_first_of_month [OF assms(3,4), of y]
  have gy: "getFullYear tz (monthStart (y, m)) = y"
    unfolding getFullYear_def day civ by simp
  have gm: "getMonth tz (monthStart (y, m)) + 1 = m"
    unfolding getMonth_def day civ by simp
  from assms(3,4) have dm: "m div 12 = (if m = 12 then 1 else 0)"
    "m mod 12 = (if m = 12 then 0 else m)"
    by auto
  from assms(5) have yr: "(if 0 \<le> y \<and> y \<le> 99 then 1900 + y else y) = y"
    by auto
  show ?thesis
    unfolding monthEnd_def gy gm newDate_def Let_def yr dm
    by simp
qed

text \<open>
  East of UTC the last day of the month is never inside the bounds; at UTC the bounds
  are the first and the last day of the month.
\<close>

lemma last_day_outside_east_of_UTC:
  assumes "0 < tz" "tz < 1440" "1 \<le> m" "m \<le> 12" "y < 0 \<or> 99 < y"
    and last: "days_from_civil y m d + 1 =
       days_from_civil (if m = 12 then y + 1 else y) (if m = 12 then 1 else m + 1) 1"
  shows "\<not> parseDate (y, m, d) \<le> monthEnd tz (y, m)"
proof -
  from assms(1) have "0 \<le> tz" by simp
  note me = monthEnd_east [OF this assms(2-5)]
  from last have "days_from_civil (if m = 12 then y + 1 else y) (if m = 12 then 1 else m + 1) 1 - 1 =
      days_from_civil y m d"
    by simp
  with me have "monthEnd tz (y, m) = days_from_civil y m d * msPerDay - tz * msPerMinute"
    by simp
  with assms(1) show ?thesis
    by (simp add: parseDate_def msPerMinute_def)
qed

lemma scaled_le: "(a::int) * 86400000 \<le> (b - 1) * 86400000 \<longleftrightarrow> a < b"
  by auto

lemma bounds_at_UTC:
  assumes "1 \<le> m" "m \<le> 12" "y < 0 \<or> 99 < y"
  shows "(monthStart (y, m) \<le> parseDate (y', m', d') \<and>
          parseDate (y', m', d') \<le> monthEnd 0 (y, m)) \<longleftrightarrow>
         (days_from_civil y m 1 \<le> days_from_civil y' m' d' \<and>
          days_from_civil y' m' d' <
            days_from_civil (if m = 12 then y + 1 else y) (if m = 12 then 1 else m + 1) 1)"
proof -
  have me: "monthEnd 0 (y, m) =
     (days_from_civil (if m = 12 then y + 1 else y) (if m = 12 then 1 else m + 1) 1 - 1) *
       msPerDay"
    using monthEnd_east [of 0 m y, OF _ _ assms] by simp
  show ?thesis
    unfolding me monthStart_def parseDate_def msPerDay_def prod.case scaled_le
    by simp
qed

text \<open>
  So on a host east of UTC no report keeps a record dated on the last day of its month.
\<close>

lemma last_day_records_left_out:
  assumes r: "generateMonthlyReport tz c empId (y, m) = Some r"
    and tz: "0 < tz" "tz < 1440" and m: "1 \<le> m" "m \<le> 12" and y: "y < 0 \<or> 99 < y"
    and last: "days_from_civil y m d + 1 =
       days_from_civil (if m = 12 then y + 1 else y) (if m = 12 then 1 else m + 1) 1"
  shows "(y, m, d) \<notin> AttendanceRecord.date ` set (attendanceDetails r) \<and>
         (y, m, d) \<notin> Advance.date ` set (advanceDetails r) \<and>
         (y, m, d) \<notin> paymentDate ` set (salaryPaymentDetails r)"
  using last_day_outside_east_of_UTC [OF tz m y last]
  unfolding report_fields(1,2,3) [OF r] by auto

text \<open>
  C2. The claim is that a record of the employee is in the report exactly when its date
  lies in the month, the first and the last day included. The function does not do this
  on every host. Run on a host five and a half hours east of UTC for January 2024, it
  leaves out the attendance record, the advance and the salary payment dated 2024-01-31
  and reports no day worked and a final amount of 0; on a host at UTC the same call
  keeps all three. On a host five hours west of UTC the record dated on the first day,
  2024-01-01, is left out, while east of UTC it is kept.
\<close>

theorem C2_last_day_left_out:
  "map_option attendanceDetails (generateMonthlyReport 330 manager2 ''e1'' (2024, 1)) = Some [] \<and>
   map_option advanceDetails (generateMonthlyReport 330 manager2 ''e1'' (2024, 1)) = Some [] \<and>
   map_option salaryPaymentDetails (generateMonthlyReport 330 manager2 ''e1'' (2024, 1)) = Some [] \<and>
   map_option totalDaysWorked (generateMonthlyReport 330 manager2 ''e1'' (2024, 1)) = Some 0 \<and>
   map_option finalAmount (generateMonthlyReport 330 manager2 ''e1'' (2024, 1)) = Some 0 \<and>
   map_option attendanceDetails (generateMonthlyReport 0 manager2 ''e1'' (2024, 1)) =
     Some [lastDayRecord] \<and>
   map_option advanceDetails (generateMonthlyReport 0 manager2 ''e1'' (2024, 1)) =
     Some [lastDayAdvance] \<and>
   map_option salaryPaymentDetails (generateMonthlyReport 0 manager2 ''e1'' (2024, 1)) =
     Some [lastDayPayment] \<and>
   map_option finalAmount (generateMonthlyReport 0 manager2 ''e1'' (2024, 1)) = Some 200 \<and>
   map_option attendanceDetails (generateMonthlyReport (- 300) manager3 ''e1'' (2024, 1)) = Some [] \<and>
   map_option attendanceDetails (generateMonthlyReport 330 manager3 ''e1'' (2024, 1)) =
     Some [firstDayRecord]"
  by code_simp

subsection \<open>The balance string\<close>

text \<open>
  C5. The balance string is the formatted zero, with no sign, for a balance of zero, and
  for every other balance, positive or negative, a plus sign followed by the formatted
  absolute value.
\<close>

theorem C5_formatBalance:
  "formatBalance fc x = (if x = 0 then fc 0 else ''+'' @ fc \<bar>x\<bar>)"
  by (simp add: formatBalance_def)

theorem C5_formatBalance_witness:
  "formatBalance plainAmount 0 = ''0'' \<and>
   formatBalance plainAmount 3300 = ''+3300'' \<and>
   formatBalance plainAmount (- 250) = ''+250''"
proof -
  have "plainAmount 0 = ''0''" "plainAmount 3300 = ''3300''" "plainAmount 250 = ''250''"
    by code_simp+
  with C5_formatBalance [of plainAmount 0] C5_formatBalance [of plainAmount 3300]
    C5_formatBalance [of plainAmount "- 250"]
  show ?thesis by simp
qed

subsection \<open>The search filter\<close>






text \<open>
  The examples: the ASCII search of \<open>manager1\<close>; the accented name, which the filter
  finds; and the lowering of the Greek name and of the search term.
\<close>

lemma filteredEmployees_examples:
  "filteredEmployees toLowerCase manager1 = [employee1]"
  "filteredEmployees toLowerCase manager5 = [employee4]"
  "toLowerCase (name employee3) = [CHR 0xCE, CHR 0xB1, CHR 0xCF, CHR 0x82]"
  "toLowerCase (searchTerm manager4) = [CHR 0xCF, CHR 0x83]"
  "toLowerCase [] = []"
  by code_simp+




subsection \<open>The payslip\<close>

text \<open>
  C7, as the claim states it, fails: a category whose list is empty leaves an empty line
  in the payslip. In the example the custom-payment list is empty, and the text that
  \<open>downloadReport\<close> produces has two line breaks in a row between the half-day line and
  the total.
\<close>

theorem C7_empty_line_counterexample:
  "downloadReport 0 host1 manager1 = Some (reportContent host1 report1 employee1) \<and>
   customPaymentRecords report1 = [] \<and>
   includes_str (reportContent host1 report1 employee1)
     (''Half Days (1 days): 0'' @ [newline, newline] @ ''Total Wages Earned: 1850'')"
  by code_simp

text \<open>
  C7, amended. The payslip is its 41 template lines joined by line breaks. The lines at
  positions 15, 16 and 17 are the overtime, half-day and custom-payment sub-lines: each
  is the empty line when its category list is empty, so that the line break after it
  stays in the text, and otherwise gives the length of the list and the sum of its
  custom amounts.
\<close>

theorem C7_sub_lines:
  assumes "monthlyReport tz c = Some r" and "selectedEmployeeData c = Some e"
  shows "downloadReport tz host c = Some (join [newline] (reportLines host r e)) \<and>
         length (reportLines host r e) = 41 \<and>
         take 3 (drop 15 (reportLines host r e)) =
           [if otRecords r = [] then []
            else ''Overtime ('' @ showNat (length (otRecords r)) @ '' days): '' @
                 formatCurrency host (sum_list (map customAmountOr0 (otRecords r))),
            if halfDayRecords r = [] then []
            else ''Half Days ('' @ showNat (length (halfDayRecords r)) @ '' days): '' @
                 formatCurrency host (sum_list (map customAmountOr0 (halfDayRecords r))),
            if customPaymentRecords r = [] then []
            else ''Custom Payments ('' @ showNat (length (customPaymentRecords r)) @ ''): '' @
                 formatCurrency host (sum_list (map customAmountOr0 (customPaymentRecords r)))]"
proof -
  have dl: "downloadReport tz host c = Some (join [newline] (reportLines host r e))"
    by (simp add: downloadReport_def assms reportContent_def)
  have len: "length (reportLines host r e) = 41"
    by (simp add: reportLines_def earningsLines_def)
  have sub: "take 3 (drop 15 (reportLines host r e)) =
      [overtimeLine host r, halfDayLine host r, customPaymentLine host r]"
    by (simp add: reportLines_def earningsLines_def)
  have ot: "overtimeLine host r = (if otRecords r = [] then []
            else ''Overtime ('' @ showNat (length (otRecords r)) @ '' days): '' @
                 formatCurrency host (sum_list (map customAmountOr0 (otRecords r))))"
    by (simp add: overtimeLine_def customAmountTotal_sum)
  have hd: "halfDayLine host r = (if halfDayRecords r = [] then []
            else ''Half Days ('' @ showNat (length (halfDayRecords r)) @ '' days): '' @
                 formatCurrency host (sum_list (map customAmountOr0 (halfDayRecords r))))"
    by (simp add: halfDayLine_def customAmountTotal_sum)
  have cp: "customPaymentLine host r = (if customPaymentRecords r = [] then []
            else ''Custom Payments ('' @ showNat (length (customPaymentRecords r)) @ ''): '' @
                 formatCurrency host (sum_list (map customAmountOr0 (customPaymentRecords r))))"
    by (simp add: customPaymentLine_def customAmountTotal_sum)
  from dl len sub show ?thesis
    unfolding ot hd cp by (intro conjI)
qed

theorem C7_sub_lines_witness:
  "monthlyReport 0 manager1 = Some report1 \<and>
   selectedEmployeeData manager1 = Some employee1 \<and>
   downloadReport 0 host1 manager1 = Some (join [newline] (reportLines host1 report1 employee1)) \<and>
   length (reportLines host1 report1 employee1) = 41 \<and>
   take 3 (drop 15 (reportLines host1 report1 employee1)) =
     [''Overtime (1 days): 300'', ''Half Days (1 days): 0'', []]"
proof -
  have v: "[if otRecords report1 = [] then []
            else ''Overtime ('' @ showNat (length (otRecords report1)) @ '' days): '' @
                 formatCurrency host1 (sum_list (map customAmountOr0 (otRecords report1))),
            if halfDayRecords report1 = [] then []
            else ''Half Days ('' @ showNat (length (halfDayRecords report1)) @ '' days): '' @
                 formatCurrency host1 (sum_list (map customAmountOr0 (halfDayRecords report1))),
            if customPaymentRecords report1 = [] then []
            else ''Custom Payments ('' @ showNat (length (customPaymentRecords report1)) @ ''): '' @
                 formatCurrency host1
                   (sum_list (map customAmountOr0 (customPaymentRecords report1)))] =
        [''Overtime (1 days): 300'', ''Half Days (1 days): 0'', []]"
    by code_simp
  from C7_sub_lines [OF monthlyReport1 selectedEmployeeData1, of host1]
    monthlyReport1 selectedEmployeeData1
  show ?thesis
    unfolding v by (intro conjI) simp_all
qed

subsection \<open>Calls on the store\<close>

lemma filterEmployees_sel:
  "fst (filterEmployees P a h) = nextRef h"
  "nextRef (snd (filterEmployees P a h)) = Suc (nextRef h)"
  "employeeArr (snd (filterEmployees P a h)) =
     (employeeArr h)(nextRef h := filter P (employeeArr h a))"
  "attendanceArr (snd (filterEmployees P a h)) = attendanceArr h"
  "advanceArr (snd (filterEmployees P a h)) = advanceArr h"
  "paymentArr (snd (filterEmployees P a h)) = paymentArr h"
  by (simp_all add: filterEmployees_def)

lemma filterAttendance_sel:
  "fst (filterAttendance P a h) = nextRef h"
  "nextRef (snd (filterAttendance P a h)) = Suc (nextRef h)"
  "attendanceArr (snd (filterAttendance P a h)) =
     (attendanceArr h)(nextRef h := filter P (attendanceArr h a))"
  "employeeArr (snd (filterAttendance P a h)) = employeeArr h"
  "advanceArr (snd (filterAttendance P a h)) = advanceArr h"
  "paymentArr (snd (filterAttendance P a h)) = paymentArr h"
  by (simp_all add: filterAttendance_def)

lemma filterAdvances_sel:
  "fst (filterAdvances P a h) = nextRef h"
  "nextRef (snd (filterAdvances P a h)) = Suc (nextRef h)"
  "advanceArr (snd (filterAdvances P a h)) =
     (advanceArr h)(nextRef h := filter P (advanceArr h a))"
  "employeeArr (snd (filterAdvances P a h)) = employeeArr h"
  "attendanceArr (snd (filterAdvances P a h)) = attendanceArr h"
  "paymentArr (snd (filterAdvances P a h)) = paymentArr h"
  by (simp_all add: filterAdvances_def)

lemma filterPayments_sel:
  "fst (filterPayments P a h) = nextRef h"
  "nextRef (snd (filterPayments P a h)) = Suc (nextRef h)"
  "paymentArr (snd (filterPayments P a h)) =
     (paymentArr h)(nextRef h := filter P (paymentArr h a))"
  "employeeArr (snd (filterPayments P a h)) = employeeArr h"
  "attendanceArr (snd (filterPayments P a h)) = attendanceArr h"
  "advanceArr (snd (filterPayments P a h)) = advanceArr h"
  by (simp_all add: filterPayments_def)

lemmas filter_sel = filterEmployees_sel filterAttendance_sel filterAdvances_sel
  filterPayments_sel

text \<open>A call only adds arrays: what was on the store stays as it was.\<close>

lemma generateMonthlyReport_heap_frame:
  "nextRef h \<le> nextRef (snd (generateMonthlyReport_heap tz p empId mth h)) \<and>
   employeeArr (snd (generateMonthlyReport_heap tz p empId mth h)) = employeeArr h \<and>
   (\<forall>b < nextRef h.
      attendanceArr (snd (generateMonthlyReport_heap tz p empId mth h)) b = attendanceArr h b \<and>
      advanceArr (snd (generateMonthlyReport_heap tz p empId mth h)) b = advanceArr h b \<and>
      paymentArr (snd (generateMonthlyReport_heap tz p empId mth h)) b = paymentArr h b)"
proof (cases "List.find (\<lambda>e. id_emp e = empId) (employeeArr h (employeesRef p))")
  case None
  then show ?thesis by (simp add: generateMonthlyReport_heap_def)
next
  case (Some employee)
  then show ?thesis
    by (simp add: generateMonthlyReport_heap_def Let_def split_def filter_sel)
qed

text \<open>Read off the store, the report object is the report of the pure function.\<close>

lemma generateMonthlyReport_heap_refines:
  assumes "allocated h p" and "holds h p c"
  shows "map_option (derefReport (snd (generateMonthlyReport_heap tz p empId mth h)))
           (fst (generateMonthlyReport_heap tz p empId mth h)) =
         generateMonthlyReport tz c empId mth"
proof (cases "List.find (\<lambda>e. id_emp e = empId) (employees c)")
  case None
  with assms(2) have "List.find (\<lambda>e. id_emp e = empId) (employeeArr h (employeesRef p)) = None"
    by (simp add: holds_def)
  with None show ?thesis
    by (simp add: generateMonthlyReport_heap_def generateMonthlyReport_def)
next
  case (Some employee)
  with assms(2) have f: "List.find (\<lambda>e. id_emp e = empId) (employeeArr h (employeesRef p)) =
      Some employee"
    by (simp add: holds_def)
  from assms have refs: "attendanceRef p \<noteq> nextRef h" "advancesRef p \<noteq> nextRef h"
    "salaryPaymentsRef p \<noteq> nextRef h"
    "attendanceArr h (attendanceRef p) = attendance c"
    "advanceArr h (advancesRef p) = advances c"
    "paymentArr h (salaryPaymentsRef p) = salaryPayments c"
    by (auto simp: allocated_def holds_def)
  show ?thesis
    by (simp add: generateMonthlyReport_heap_def generateMonthlyReport_def f Some Let_def
        split_def filter_sel derefReport_def refs)
qed

lemma holds_frame:
  assumes "allocated h p" and "holds h p c"
    and "employeeArr h' = employeeArr h"
    and "\<forall>b < nextRef h. attendanceArr h' b = attendanceArr h b \<and>
           advanceArr h' b = advanceArr h b \<and> paymentArr h' b = paymentArr h b"
    and "nextRef h \<le> nextRef h'"
  shows "holds h' p c \<and> allocated h' p"
  using assms by (auto simp: allocated_def holds_def)

lemma generateMonthlyReport_heap_keeps:
  assumes "allocated h p" and "holds h p c"
  shows "holds (snd (generateMonthlyReport_heap tz p empId mth h)) p c \<and>
         allocated (snd (generateMonthlyReport_heap tz p empId mth h)) p"
  using generateMonthlyReport_heap_frame [of h tz p empId mth]
  by (intro holds_frame [OF assms]) simp_all

lemma filteredEmployees_heap_refines:
  assumes "holds h p c"
  shows "employeeArr (snd (filteredEmployees_heap lower p (searchTerm c) h))
           (fst (filteredEmployees_heap lower p (searchTerm c) h)) = filteredEmployees lower c"
  using assms by (simp add: filteredEmployees_heap_def filteredEmployees_def filter_sel holds_def)

lemma filteredEmployees_heap_keeps:
  assumes "allocated h p" and "holds h p c"
  shows "holds (snd (filteredEmployees_heap lower p term h)) p c \<and>
         allocated (snd (filteredEmployees_heap lower p term h)) p"
  using assms by (auto simp: filteredEmployees_heap_def filter_sel holds_def allocated_def)

subsection \<open>Repeated calls\<close>

text \<open>
  C9. Take two stores on which the four collections have the same contents, those of
  \<open>c\<close>. Then \<open>generateMonthlyReport\<close> called with the same employee identifier and month
  gives, read off the store it leaves, the same report on both, and the search filter,
  whatever the lowering function of the host, gives the same list on both; and after
  either call the four collections still have
  the contents they had, so that the call can be repeated with the same result.
\<close>

theorem C9_repeatable_and_read_only:
  assumes "allocated h p" and "holds h p c" and "allocated h' p'" and "holds h' p' c"
  shows "map_option (derefReport (snd (generateMonthlyReport_heap tz p empId mth h)))
           (fst (generateMonthlyReport_heap tz p empId mth h)) =
         map_option (derefReport (snd (generateMonthlyReport_heap tz p' empId mth h')))
           (fst (generateMonthlyReport_heap tz p' empId mth h')) \<and>
         map_option (derefReport (snd (generateMonthlyReport_heap tz p empId mth h)))
           (fst (generateMonthlyReport_heap tz p empId mth h)) =
         generateMonthlyReport tz c empId mth \<and>
         holds (snd (generateMonthlyReport_heap tz p empId mth h)) p c \<and>
         allocated (snd (generateMonthlyReport_heap tz p empId mth h)) p \<and>
         employeeArr (snd (filteredEmployees_heap lower p (searchTerm c) h))
           (fst (filteredEmployees_heap lower p (searchTerm c) h)) =
         employeeArr (snd (filteredEmployees_heap lower p' (searchTerm c) h'))
           (fst (filteredEmployees_heap lower p' (searchTerm c) h')) \<and>
         employeeArr (snd (filteredEmployees_heap lower p (searchTerm c) h))
           (fst (filteredEmployees_heap lower p (searchTerm c) h)) = filteredEmployees lower c \<and>
         holds (snd (filteredEmployees_heap lower p (searchTerm c) h)) p c \<and>
         allocated (snd (filteredEmployees_heap lower p (searchTerm c) h)) p"
proof -
  note r = generateMonthlyReport_heap_refines [OF assms(1,2), of tz empId mth]
  note r' = generateMonthlyReport_heap_refines [OF assms(3,4), of tz empId mth]
  note k = generateMonthlyReport_heap_keeps [OF assms(1,2), of tz empId mth]
  note f = filteredEmployees_heap_refines [OF assms(2)]
  note f' = filteredEmployees_heap_refines [OF assms(4)]
  note fk = filteredEmployees_heap_keeps [OF assms(1,2), of lower "searchTerm c"]
  from r r' have "map_option (derefReport (snd (generateMonthlyReport_heap tz p empId mth h)))
           (fst (generateMonthlyReport_heap tz p empId mth h)) =
         map_option (derefReport (snd (generateMonthlyReport_heap tz p' empId mth h')))
           (fst (generateMonthlyReport_heap tz p' empId mth h'))"
    by (rule trans_sym)
  moreover from f f' have "employeeArr (snd (filteredEmployees_heap lower p (searchTerm c) h))
           (fst (filteredEmployees_heap lower p (searchTerm c) h)) =
         employeeArr (snd (filteredEmployees_heap lower p' (searchTerm c) h'))
           (fst (filteredEmployees_heap lower p' (searchTerm c) h'))"
    by (rule trans_sym)
  ultimately show ?thesis using r k f fk by (intro conjI) (elim conjE, assumption)+
qed

lemma heap1_facts:
  "allocated heap1 props1" "holds heap1 props1 manager1"
  by (simp_all add: allocated_def holds_def heap1_def props1_def manager1_def)

theorem C9_repeatable_and_read_only_witness:
  "allocated heap1 props1 \<and> holds heap1 props1 manager1 \<and>
   allocated heap1_after props1 \<and> holds heap1_after props1 manager1 \<and>
   map_option (derefReport (snd (generateMonthlyReport_heap 0 props1 ''e1'' (2024, 1) heap1)))
     (fst (generateMonthlyReport_heap 0 props1 ''e1'' (2024, 1) heap1)) = Some report1 \<and>
   map_option (derefReport (snd (generateMonthlyReport_heap 0 props1 ''e1'' (2024, 1) heap1_after)))
     (fst (generateMonthlyReport_heap 0 props1 ''e1'' (2024, 1) heap1_after)) = Some report1 \<and>
   employeeArr (snd (filteredEmployees_heap toLowerCase props1 (searchTerm manager1) heap1))
     (fst (filteredEmployees_heap toLowerCase props1 (searchTerm manager1) heap1)) =
   employeeArr (snd (filteredEmployees_heap toLowerCase props1 (searchTerm manager1) heap1_after))
     (fst (filteredEmployees_heap toLowerCase props1 (searchTerm manager1) heap1_after))"
proof -
  have a: "allocated heap1_after props1" "holds heap1_after props1 manager1"
    by (simp_all add: heap1_after_def heap1_def props1_def allocated_def holds_def manager1_def
        generateMonthlyReport_heap_def employee1_def employee2_def Let_def split_def filter_sel)
  from C9_repeatable_and_read_only [OF heap1_facts a, of 0 "''e1''" "(2024, 1)" toLowerCase]
    heap1_facts a report1_eq
  show ?thesis
    by (elim conjE) (intro conjI, simp_all)
qed

end
